theory Spec2Isabelle
  imports Main "HOL-Library.Word" "HOL-Library.Monad_Syntax"
begin

unbundle bit_operations_syntax

section \<open>The VNC session engine of guacamole (src/protocols/vnc)\<close>

text \<open>
  The development embeds \<^verbatim>\<open>vnc.c\<close> and the user handlers of the VNC protocol
  support. C objects are records, function pointers and enumerations are datatypes,
  \<^verbatim>\<open>unsigned int\<close> is \<open>32 word\<close>, \<^verbatim>\<open>uint8_t\<close> is \<open>8 word\<close> and \<^verbatim>\<open>uint16_t\<close> is
  \<open>16 word\<close>. A pointer into a byte buffer is the buffer (a list of bytes) together
  with an integer offset. A function whose C execution would dereference a null pointer
  or read outside a buffer returns \<open>None\<close>; every other execution returns \<open>Some\<close> of the
  state it leaves behind. Calls into the libraries the code is linked with (the surface
  and cursor of the shared display, the user's socket, the RFB connection) are recorded,
  in order, in the object they are made on.
\<close>

subsection \<open>Pixel formats and channel extraction\<close>

text \<open>The fields of libvncclient's \<^verbatim>\<open>rfbPixelFormat\<close> that the code reads or writes.\<close>

record rfbPixelFormat =
  bitsPerPixel :: "8 word"
  depth :: "8 word"
  trueColour :: "8 word"
  redMax :: "16 word"
  greenMax :: "16 word"
  blueMax :: "16 word"
  redShift :: "8 word"
  greenShift :: "8 word"
  blueShift :: "8 word"

text \<open>
  The expression \<^verbatim>\<open>(v >> shift) * 0x100 / (max + 1)\<close> of \<^verbatim>\<open>guac_vnc_update\<close> and
  \<^verbatim>\<open>guac_vnc_cursor\<close>. The raw value \<open>v\<close> is an \<^verbatim>\<open>unsigned int\<close>, so the product wraps
  at 32 bits; \<^verbatim>\<open>max + 1\<close> is computed in \<^verbatim>\<open>int\<close> from a 16-bit value, lies in
  \<open>1..65536\<close> and is converted to \<^verbatim>\<open>unsigned int\<close> for the division. A shift count of 32
  or more is undefined in C; \<open>drop_bit\<close> yields 0 there.
\<close>

definition channel_quotient :: "32 word \<Rightarrow> 8 word \<Rightarrow> 16 word \<Rightarrow> 32 word" where
  "channel_quotient v shift mx = (drop_bit (unat shift) v * 0x100) div (ucast mx + 1)"

text \<open>The quotient is assigned to an \<^verbatim>\<open>unsigned char\<close>, which keeps its low 8 bits.\<close>

definition channel :: "32 word \<Rightarrow> 8 word \<Rightarrow> 16 word \<Rightarrow> 8 word" where
  "channel v shift mx = ucast (channel_quotient v shift mx)"

text \<open>
  The output word, \<^verbatim>\<open>(red << 16) | (green << 8) | blue\<close>, with red and blue exchanged
  when the \<^verbatim>\<open>swap_red_blue\<close> setting is on.
\<close>

definition rgb_word :: "bool \<Rightarrow> 8 word \<Rightarrow> 8 word \<Rightarrow> 8 word \<Rightarrow> 32 word" where
  "rgb_word swap_red_blue red green blue =
     (if swap_red_blue
      then push_bit 16 (ucast blue) OR push_bit 8 (ucast green) OR ucast red
      else push_bit 16 (ucast red) OR push_bit 8 (ucast green) OR ucast blue)"

definition translate_rgb :: "rfbPixelFormat \<Rightarrow> bool \<Rightarrow> 32 word \<Rightarrow> 32 word" where
  "translate_rgb fmt swap_red_blue v =
     (let red = channel v (redShift fmt) (redMax fmt);
          green = channel v (greenShift fmt) (greenMax fmt);
          blue = channel v (blueShift fmt) (blueMax fmt)
      in rgb_word swap_red_blue red green blue)"

text \<open>
  The cursor's output word: the mask byte read through \<^verbatim>\<open>*(fb_mask++)\<close> gives alpha
  \<open>0xFF\<close> when it is non-zero and \<open>0x00\<close> otherwise, and the word is
  \<^verbatim>\<open>(alpha << 24) | (red << 16) | (green << 8) | blue\<close>.
\<close>

definition mask_alpha :: "8 word \<Rightarrow> 8 word" where
  "mask_alpha m = (if m \<noteq> 0 then 0xFF else 0x00)"

definition translate_argb :: "rfbPixelFormat \<Rightarrow> bool \<Rightarrow> 8 word \<Rightarrow> 32 word \<Rightarrow> 32 word" where
  "translate_argb fmt swap_red_blue m v =
     push_bit 24 (ucast (mask_alpha m)) OR translate_rgb fmt swap_red_blue v"

subsection \<open>Reading pixels from a buffer\<close>

text \<open>
  A read through a pointer at offset \<open>p\<close> of a buffer. Outside the buffer the C code
  has no defined behaviour: \<open>None\<close>. Multi-byte reads are in the byte order of the host,
  taken little-endian.
\<close>

definition read_u8 :: "8 word list \<Rightarrow> int \<Rightarrow> 8 word option" where
  "read_u8 mem p = (if 0 \<le> p \<and> p < int (length mem) then Some (mem ! nat p) else None)"

definition read_u16 :: "8 word list \<Rightarrow> int \<Rightarrow> 16 word option" where
  "read_u16 mem p =
     do { b0 \<leftarrow> read_u8 mem p;
          b1 \<leftarrow> read_u8 mem (p + 1);
          Some (ucast b0 OR push_bit 8 (ucast b1)) }"

definition read_u32 :: "8 word list \<Rightarrow> int \<Rightarrow> 32 word option" where
  "read_u32 mem p =
     do { b0 \<leftarrow> read_u8 mem p;
          b1 \<leftarrow> read_u8 mem (p + 1);
          b2 \<leftarrow> read_u8 mem (p + 2);
          b3 \<leftarrow> read_u8 mem (p + 3);
          Some (ucast b0 OR push_bit 8 (ucast b1) OR push_bit 16 (ucast b2)
                OR push_bit 24 (ucast b3)) }"

text \<open>The \<^verbatim>\<open>switch (bpp)\<close> of both translators: 4, 2, and one byte by default.\<close>

definition read_pixel :: "int \<Rightarrow> 8 word list \<Rightarrow> int \<Rightarrow> 32 word option" where
  "read_pixel bpp mem p =
     (if bpp = 4 then read_u32 mem p
      else if bpp = 2 then map_option ucast (read_u16 mem p)
      else map_option ucast (read_u8 mem p))"

subsection \<open>The shared display, the settings and the session\<close>

text \<open>
  A call on the default surface of the display. The image of \<open>Surface_draw\<close> is the
  buffer the callback filled, one list of 32-bit words per row, with the stride
  \<^verbatim>\<open>cairo_format_stride_for_width\<close> gives a 32-bit format, four bytes per pixel.
\<close>

datatype surface_call =
    Surface_draw int int int int int "32 word list list"
  | Surface_copy int int int int int int
  | Surface_resize int int
  | Surface_flush

datatype cursor_call =
    Cursor_set_argb int int "32 word list list" int int int
  | Cursor_set_dot
  | Cursor_set_pointer
  | Cursor_update nat int int int
  | Cursor_remove_user nat

record guac_common_display =
  default_surface :: "surface_call list"
  cursor :: "cursor_call list"

datatype guac_iconv_read =
  GUAC_READ_UTF8 | GUAC_READ_UTF16 | GUAC_READ_CP1252 | GUAC_READ_ISO8859_1

datatype guac_iconv_write =
  GUAC_WRITE_UTF8 | GUAC_WRITE_UTF16 | GUAC_WRITE_CP1252 | GUAC_WRITE_ISO8859_1

record guac_vnc_settings =
  hostname :: string
  port :: int
  password :: "string option"
  encodings :: "string option"
  swap_red_blue :: bool
  color_depth :: int
  read_only :: bool
  remote_cursor :: bool
  retries :: int
  clipboard_encoding :: "string option"

text \<open>
  A function pointer stored in a callback slot of the RFB client: one of the callbacks
  of \<^verbatim>\<open>vnc.c\<close>, or a procedure of libvncclient itself, known by its name.
\<close>

datatype rfb_proc =
    Proc_guac_vnc_update
  | Proc_guac_vnc_copyrect
  | Proc_guac_vnc_cut_text
  | Proc_guac_vnc_cursor
  | Proc_guac_vnc_get_password
  | Proc_guac_vnc_malloc_framebuffer
  | Proc_libvncclient string

text \<open>A message written to the VNC server by one of libvncclient's send procedures.\<close>

datatype rfb_message =
    PointerEvent int int int
  | KeyEvent int int
  | ClientCutText "8 word list"

record AppData =
  useRemoteCursor :: bool
  encodingsString :: "string option"

text \<open>
  The fields of libvncclient's \<^verbatim>\<open>rfbClient\<close> that the code reads or writes, and \<open>sent\<close>,
  the messages written to the server through this handle so far.
\<close>

record rfbClient =
  format :: rfbPixelFormat
  width :: int
  height :: int
  frameBuffer :: "8 word list"
  rcSource :: "8 word list"
  rcMask :: "8 word list"
  buffered :: int
  GotFrameBufferUpdate :: "rfb_proc option"
  GotCopyRect :: "rfb_proc option"
  GotXCutText :: "rfb_proc option"
  GotCursorShape :: "rfb_proc option"
  GetPassword :: "rfb_proc option"
  MallocFrameBuffer :: "rfb_proc option"
  canHandleNewFBSize :: int
  appData :: AppData
  serverHost :: "string option"
  serverPort :: int
  sent :: "rfb_message list"

text \<open>
  \<^verbatim>\<open>guac_vnc_client\<close>, the data of a VNC session. The RFB handle and the display are
  pointers that are null until the client thread has connected: \<open>None\<close>. The settings
  pointer is set when the owner joins, before any function that reads it runs, and is
  taken as set. \<open>client_thread\<close> tells whether the client thread has been created.
\<close>

record guac_vnc_client =
  rfb_client :: "rfbClient option"
  rfb_MallocFrameBuffer :: "rfb_proc option"
  client_thread :: bool
  settings :: guac_vnc_settings
  display :: "guac_common_display option"
  copy_rect_used :: int
  clipboard_reader :: "guac_iconv_read option"
  clipboard_writer :: "guac_iconv_write option"

datatype guac_client_log_level = GUAC_LOG_ERROR | GUAC_LOG_WARNING | GUAC_LOG_INFO

datatype socket_call =
    Display_dup guac_common_display
  | Socket_flush

text \<open>
  \<^verbatim>\<open>guac_client\<close>: the session data (\<^verbatim>\<open>client->data\<close>), the messages logged through
  \<^verbatim>\<open>guac_client_log\<close> and the calls made on the broadcast socket.
\<close>

record guac_client =
  data :: guac_vnc_client
  log_messages :: "(guac_client_log_level \<times> string \<times> string list) list"
  socket :: "socket_call list"

subsection \<open>\<^verbatim>\<open>guac_vnc_update\<close>\<close>

text \<open>
  The inner loop over \<^verbatim>\<open>dx\<close>, with \<open>n\<close> pixels left in the row and \<^verbatim>\<open>fb_current\<close> the
  offset of the next one; the outer loop over \<^verbatim>\<open>dy\<close>, with \<open>m\<close> rows left and
  \<^verbatim>\<open>fb_row_current\<close> the offset of the next row. A loop from \<open>x\<close> below \<open>x + w\<close> runs
  \<open>nat w\<close> times.
\<close>

fun update_row ::
  "rfbPixelFormat \<Rightarrow> bool \<Rightarrow> 32 word \<Rightarrow> 8 word list \<Rightarrow> nat \<Rightarrow> int \<Rightarrow> 32 word list option" where
  "update_row fmt swap bpp fb 0 fb_current = Some []"
| "update_row fmt swap bpp fb (Suc n) fb_current =
     do { v \<leftarrow> read_pixel (uint bpp) fb fb_current;
          rest \<leftarrow> update_row fmt swap bpp fb n (fb_current + uint bpp);
          Some (translate_rgb fmt swap v # rest) }"

fun update_rows ::
  "rfbPixelFormat \<Rightarrow> bool \<Rightarrow> 32 word \<Rightarrow> 8 word list \<Rightarrow> nat \<Rightarrow> 32 word \<Rightarrow> nat \<Rightarrow> int
   \<Rightarrow> 32 word list list option" where
  "update_rows fmt swap bpp fb w fb_stride 0 fb_row_current = Some []"
| "update_rows fmt swap bpp fb w fb_stride (Suc m) fb_row_current =
     do { row \<leftarrow> update_row fmt swap bpp fb w fb_row_current;
          rest \<leftarrow> update_rows fmt swap bpp fb w fb_stride m (fb_row_current + uint fb_stride);
          Some (row # rest) }"

text \<open>
  The translation of the rectangle \<open>(x, y, w, h)\<close> of the frame buffer into the image
  buffer: \<^verbatim>\<open>bpp\<close> and \<^verbatim>\<open>fb_stride\<close> are \<^verbatim>\<open>unsigned int\<close>, and so are the offsets
  \<^verbatim>\<open>y * fb_stride\<close> and \<^verbatim>\<open>x * bpp\<close> added to the frame buffer pointer.
\<close>

definition update_image ::
  "rfbClient \<Rightarrow> bool \<Rightarrow> int \<Rightarrow> int \<Rightarrow> int \<Rightarrow> int \<Rightarrow> 32 word list list option" where
  "update_image client swap x y w h =
     (let bpp = ucast (bitsPerPixel (format client)) div 8 :: 32 word;
          fb_stride = bpp * word_of_int (width client);
          fb_row_current = uint (word_of_int y * fb_stride) + uint (word_of_int x * bpp)
      in update_rows (format client) swap bpp (frameBuffer client) (nat w) fb_stride (nat h)
           fb_row_current)"

text \<open>
  The callback gets the Guacamole client from the data of the RFB client; here it is
  the last argument. When \<^verbatim>\<open>copy_rect_used\<close> is set the callback clears it and returns.
  Otherwise it translates the rectangle and draws the image on the default surface of
  the display.
\<close>

definition guac_vnc_update ::
  "rfbClient \<Rightarrow> int \<Rightarrow> int \<Rightarrow> int \<Rightarrow> int \<Rightarrow> guac_client \<Rightarrow> guac_client option" where
  "guac_vnc_update client x y w h gc =
     (let vnc_client = data gc in
      if copy_rect_used vnc_client \<noteq> 0
      then Some (gc\<lparr>data := vnc_client\<lparr>copy_rect_used := 0\<rparr>\<rparr>)
      else
        let stride = w * 4
        in do {
             buffer \<leftarrow> update_image client (swap_red_blue (settings vnc_client)) x y w h;
             d \<leftarrow> display vnc_client;
             Some (gc\<lparr>data := vnc_client\<lparr>display := Some
                     (d\<lparr>default_surface :=
                          default_surface d @ [Surface_draw x y w h stride buffer]\<rparr>)\<rparr>\<rparr>)
           })"

subsection \<open>\<^verbatim>\<open>guac_vnc_copyrect\<close>\<close>

definition guac_vnc_copyrect ::
  "rfbClient \<Rightarrow> int \<Rightarrow> int \<Rightarrow> int \<Rightarrow> int \<Rightarrow> int \<Rightarrow> int \<Rightarrow> guac_client \<Rightarrow> guac_client option" where
  "guac_vnc_copyrect client src_x src_y w h dest_x dest_y gc =
     (let vnc_client = data gc in
      do {
        d \<leftarrow> display vnc_client;
        Some (gc\<lparr>data := vnc_client\<lparr>
                display := Some (d\<lparr>default_surface :=
                  default_surface d @ [Surface_copy src_x src_y w h dest_x dest_y]\<rparr>),
                copy_rect_used := 1\<rparr>\<rparr>)
      })"

subsection \<open>\<^verbatim>\<open>guac_vnc_set_pixel_format\<close>\<close>

definition guac_vnc_set_pixel_format :: "rfbClient \<Rightarrow> int \<Rightarrow> rfbClient" where
  "guac_vnc_set_pixel_format client colour_depth =
     (let f = (format client)\<lparr>trueColour := 1\<rparr> in
      if colour_depth = 8 then
        client\<lparr>format := f\<lparr>depth := 8, bitsPerPixel := 8,
                  blueShift := 6, redShift := 0, greenShift := 3,
                  blueMax := 3, redMax := 7, greenMax := 7\<rparr>\<rparr>
      else if colour_depth = 16 then
        client\<lparr>format := f\<lparr>depth := 16, bitsPerPixel := 16,
                  blueShift := 0, redShift := 11, greenShift := 5,
                  blueMax := 0x1f, redMax := 0x1f, greenMax := 0x3f\<rparr>\<rparr>
      else
        client\<lparr>format := f\<lparr>depth := 24, bitsPerPixel := 32,
                  blueShift := 0, redShift := 16, greenShift := 8,
                  blueMax := 0xff, redMax := 0xff, greenMax := 0xff\<rparr>\<rparr>)"

subsection \<open>\<^verbatim>\<open>guac_vnc_cursor\<close>\<close>

text \<open>
  The loops of the cursor callback. One pointer, \<^verbatim>\<open>fb_mask\<close>, runs through the mask
  buffer \<^verbatim>\<open>rcMask\<close> across all rows and advances by one byte for every pixel; the inner
  loop returns it with the row. Here \<^verbatim>\<open>bpp\<close> is the \<^verbatim>\<open>int\<close> argument of the callback.
\<close>

fun cursor_row ::
  "rfbPixelFormat \<Rightarrow> bool \<Rightarrow> int \<Rightarrow> 8 word list \<Rightarrow> 8 word list \<Rightarrow> nat \<Rightarrow> int \<Rightarrow> int
   \<Rightarrow> (32 word list \<times> int) option" where
  "cursor_row fmt swap bpp src msk 0 fb_current fb_mask = Some ([], fb_mask)"
| "cursor_row fmt swap bpp src msk (Suc n) fb_current fb_mask =
     do { v \<leftarrow> read_pixel bpp src fb_current;
          m \<leftarrow> read_u8 msk fb_mask;
          (rest, fb_mask') \<leftarrow> cursor_row fmt swap bpp src msk n (fb_current + bpp) (fb_mask + 1);
          Some (translate_argb fmt swap m v # rest, fb_mask') }"

fun cursor_rows ::
  "rfbPixelFormat \<Rightarrow> bool \<Rightarrow> int \<Rightarrow> 8 word list \<Rightarrow> 8 word list \<Rightarrow> nat \<Rightarrow> 32 word \<Rightarrow> nat
   \<Rightarrow> int \<Rightarrow> int \<Rightarrow> 32 word list list option" where
  "cursor_rows fmt swap bpp src msk w fb_stride 0 fb_row_current fb_mask = Some []"
| "cursor_rows fmt swap bpp src msk w fb_stride (Suc k) fb_row_current fb_mask =
     do { (row, fb_mask') \<leftarrow> cursor_row fmt swap bpp src msk w fb_row_current fb_mask;
          rest \<leftarrow> cursor_rows fmt swap bpp src msk w fb_stride k
                    (fb_row_current + uint fb_stride) fb_mask';
          Some (row # rest) }"

text \<open>
  The translation of the cursor image: \<^verbatim>\<open>rcSource\<close> and \<^verbatim>\<open>rcMask\<close> are read from their
  first bytes, and \<^verbatim>\<open>fb_stride\<close> is the \<^verbatim>\<open>int\<close> product \<^verbatim>\<open>bpp * w\<close> stored in an
  \<^verbatim>\<open>unsigned int\<close>.
\<close>

definition cursor_image ::
  "rfbClient \<Rightarrow> bool \<Rightarrow> int \<Rightarrow> int \<Rightarrow> int \<Rightarrow> 32 word list list option" where
  "cursor_image client swap w h bpp =
     (let fb_stride = word_of_int (bpp * w) :: 32 word
      in cursor_rows (format client) swap bpp (rcSource client) (rcMask client)
           (nat w) fb_stride (nat h) 0 0)"

text \<open>
  The callback sets the translated image as the cursor of the display. The release of
  the image buffer and of \<^verbatim>\<open>rcMask\<close> at the end of the C function is outside the model.
\<close>

definition guac_vnc_cursor ::
  "rfbClient \<Rightarrow> int \<Rightarrow> int \<Rightarrow> int \<Rightarrow> int \<Rightarrow> int \<Rightarrow> guac_client \<Rightarrow> guac_client option" where
  "guac_vnc_cursor client x y w h bpp gc =
     (let vnc_client = data gc;
          stride = w * 4
      in do {
           buffer \<leftarrow> cursor_image client (swap_red_blue (settings vnc_client)) w h bpp;
           d \<leftarrow> display vnc_client;
           Some (gc\<lparr>data := vnc_client\<lparr>display := Some
                   (d\<lparr>cursor := cursor d @ [Cursor_set_argb x y buffer w h stride]\<rparr>)\<rparr>\<rparr>)
         })"

subsection \<open>\<^verbatim>\<open>guac_vnc_get_client\<close>\<close>

text \<open>
  The configuration of a new RFB client, up to the call of \<^verbatim>\<open>rfbInitClient\<close>. The
  first argument is the client \<^verbatim>\<open>rfbGetClient(8, 3, 4)\<close> returned. The build is the one
  with neither \<^verbatim>\<open>ENABLE_VNC_REPEATER\<close> nor \<^verbatim>\<open>ENABLE_VNC_LISTEN\<close>. The result is the
  configured RFB client and the Guacamole client, whose session data now holds the
  allocator the library had installed.
\<close>

definition guac_vnc_get_client_setup :: "rfbClient \<Rightarrow> guac_client \<Rightarrow> rfbClient \<times> guac_client" where
  "guac_vnc_get_client_setup rfbGetClient client =
     (let vnc_client = data client;
          vnc_settings = settings vnc_client;
          c1 = rfbGetClient\<lparr>GotFrameBufferUpdate := Some Proc_guac_vnc_update,
                            GotCopyRect := Some Proc_guac_vnc_copyrect\<rparr>;
          c2 = (if \<not> read_only vnc_settings then
                  let c = c1\<lparr>GotXCutText := Some Proc_guac_vnc_cut_text\<rparr> in
                  if remote_cursor vnc_settings
                  then c\<lparr>appData := (appData c)\<lparr>useRemoteCursor := False\<rparr>\<rparr>
                  else c\<lparr>appData := (appData c)\<lparr>useRemoteCursor := True\<rparr>,
                         GotCursorShape := Some Proc_guac_vnc_cursor\<rparr>
                else c1);
          c3 = c2\<lparr>GetPassword := Some Proc_guac_vnc_get_password\<rparr>;
          c4 = guac_vnc_set_pixel_format c3 (color_depth vnc_settings);
          vnc_client' = vnc_client\<lparr>rfb_MallocFrameBuffer := MallocFrameBuffer c4\<rparr>;
          c5 = c4\<lparr>MallocFrameBuffer := Some Proc_guac_vnc_malloc_framebuffer,
                   canHandleNewFBSize := 1\<rparr>;
          c6 = c5\<lparr>serverHost := Some (hostname vnc_settings),
                   serverPort := port vnc_settings\<rparr>;
          c7 = (case encodings vnc_settings of
                  Some e \<Rightarrow> c6\<lparr>appData := (appData c6)\<lparr>encodingsString := Some e\<rparr>\<rparr>
                | None \<Rightarrow> c6)
      in (c7, client\<lparr>data := vnc_client'\<rparr>))"

text \<open>
  The whole function: \<^verbatim>\<open>rfbInitClient\<close>, the second argument, connects the configured
  client and returns it, or fails, and then the function returns no client.
\<close>

definition guac_vnc_get_client ::
  "rfbClient \<Rightarrow> (rfbClient \<Rightarrow> rfbClient option) \<Rightarrow> guac_client \<Rightarrow> rfbClient option \<times> guac_client" where
  "guac_vnc_get_client rfbGetClient rfbInitClient client =
     (let (rfbc, client') = guac_vnc_get_client_setup rfbGetClient client
      in (rfbInitClient rfbc, client'))"

subsection \<open>\<^verbatim>\<open>guac_vnc_set_clipboard_encoding\<close>\<close>

text \<open>
  The name is a C string or \<^verbatim>\<open>NULL\<close>; \<^verbatim>\<open>strcmp\<close> compares it byte for byte. The result
  is the returned \<^verbatim>\<open>int\<close> and the client, with the reader and the writer set and, for
  an unrecognised name, one more warning in its log (the format string and its argument).
\<close>

definition guac_vnc_set_clipboard_encoding :: "guac_client \<Rightarrow> string option \<Rightarrow> int \<times> guac_client" where
  "guac_vnc_set_clipboard_encoding client name =
     (let vnc_client = data client in
      if name = None \<or> name = Some ''ISO8859-1'' then
        (0, client\<lparr>data := vnc_client\<lparr>clipboard_reader := Some GUAC_READ_ISO8859_1,
                                        clipboard_writer := Some GUAC_WRITE_ISO8859_1\<rparr>\<rparr>)
      else if name = Some ''UTF-8'' then
        (1, client\<lparr>data := vnc_client\<lparr>clipboard_reader := Some GUAC_READ_UTF8,
                                        clipboard_writer := Some GUAC_WRITE_UTF8\<rparr>\<rparr>)
      else if name = Some ''UTF-16'' then
        (1, client\<lparr>data := vnc_client\<lparr>clipboard_reader := Some GUAC_READ_UTF16,
                                        clipboard_writer := Some GUAC_WRITE_UTF16\<rparr>\<rparr>)
      else if name = Some ''CP1252'' then
        (1, client\<lparr>data := vnc_client\<lparr>clipboard_reader := Some GUAC_READ_CP1252,
                                        clipboard_writer := Some GUAC_WRITE_CP1252\<rparr>\<rparr>)
      else
        (0, client\<lparr>log_messages := log_messages client @
                      [(GUAC_LOG_WARNING, ''Encoding '%s' is invalid. Defaulting to ISO8859-1.'',
                        (case name of Some n \<Rightarrow> [n] | None \<Rightarrow> []))],
                    data := vnc_client\<lparr>clipboard_reader := Some GUAC_READ_ISO8859_1,
                                        clipboard_writer := Some GUAC_WRITE_ISO8859_1\<rparr>\<rparr>))"

subsection \<open>The user handlers\<close>

datatype user_proc =
    Proc_guac_vnc_user_mouse_handler
  | Proc_guac_vnc_user_key_handler
  | Proc_guac_vnc_clipboard_handler

text \<open>
  \<^verbatim>\<open>guac_user\<close>: whether the user owns the connection, the settings stored as its data,
  the calls made on its socket, its log and its three input handlers.
\<close>

record guac_user =
  user_id :: nat
  owner :: bool
  user_data :: "guac_vnc_settings option"
  user_socket :: "socket_call list"
  user_log :: "(guac_client_log_level \<times> string) list"
  mouse_handler :: "user_proc option"
  key_handler :: "user_proc option"
  clipboard_handler :: "user_proc option"

text \<open>
  The mouse handler stores the mouse state in the cursor of the display, through the
  display pointer, before it tests the RFB handle; \<^verbatim>\<open>SendPointerEvent\<close> is called only
  when the handle is not null. The result is the returned \<^verbatim>\<open>int\<close> and the client.
\<close>

definition guac_vnc_user_mouse_handler ::
  "guac_user \<Rightarrow> int \<Rightarrow> int \<Rightarrow> int \<Rightarrow> guac_client \<Rightarrow> (int \<times> guac_client) option" where
  "guac_vnc_user_mouse_handler user x y button_mask client =
     (let vnc_client = data client in
      do {
        d \<leftarrow> display vnc_client;
        let vnc_client1 = vnc_client\<lparr>display := Some
              (d\<lparr>cursor := cursor d @ [Cursor_update (user_id user) x y button_mask]\<rparr>)\<rparr>;
        let vnc_client2 =
              (case rfb_client vnc_client of
                 Some rc \<Rightarrow> vnc_client1\<lparr>rfb_client := Some
                              (rc\<lparr>sent := sent rc @ [PointerEvent x y button_mask]\<rparr>)\<rparr>
               | None \<Rightarrow> vnc_client1);
        Some (0, client\<lparr>data := vnc_client2\<rparr>)
      })"

definition guac_vnc_user_key_handler ::
  "guac_user \<Rightarrow> int \<Rightarrow> int \<Rightarrow> guac_client \<Rightarrow> int \<times> guac_client" where
  "guac_vnc_user_key_handler user keysym pressed client =
     (let vnc_client = data client in
      case rfb_client vnc_client of
        Some rc \<Rightarrow> (0, client\<lparr>data := vnc_client\<lparr>rfb_client := Some
                         (rc\<lparr>sent := sent rc @ [KeyEvent keysym pressed]\<rparr>)\<rparr>\<rparr>)
      | None \<Rightarrow> (0, client))"

text \<open>
  Modelled from the spec: \<^verbatim>\<open>guac_vnc_clipboard_handler\<close>, which the join handler
  installs and whose source file (\<^verbatim>\<open>clipboard.c\<close>) is not among the sources. The
  specification says of it: "transcode via the clipboard writer, emit RFB cut-text", and
  of all three input handlers: "Until the upstream handle is non-null, input handlers
  silently drop events". The transcoder, \<^verbatim>\<open>guac_iconv\<close>, is the first argument.
\<close>

definition guac_vnc_clipboard_handler ::
  "(guac_iconv_write \<Rightarrow> 8 word list \<Rightarrow> 8 word list) \<Rightarrow> guac_user \<Rightarrow> 8 word list \<Rightarrow> guac_client
   \<Rightarrow> (int \<times> guac_client) option" where
  "guac_vnc_clipboard_handler guac_iconv user text_utf8 client =
     (let vnc_client = data client in
      case rfb_client vnc_client of
        None \<Rightarrow> Some (0, client)
      | Some rc \<Rightarrow>
          do {
            writer \<leftarrow> clipboard_writer vnc_client;
            Some (0, client\<lparr>data := vnc_client\<lparr>rfb_client := Some
                       (rc\<lparr>sent := sent rc @ [ClientCutText (guac_iconv writer text_utf8)]\<rparr>)\<rparr>\<rparr>)
          })"

text \<open>
  The join handler. \<^verbatim>\<open>guac_vnc_parse_args\<close> (of \<^verbatim>\<open>settings.c\<close>) is the first argument;
  the second is the value \<^verbatim>\<open>pthread_create\<close> returns when the owner's client thread is
  started, zero when the thread has been created. The result is the returned \<^verbatim>\<open>int\<close>,
  the user and the client.
\<close>

definition guac_vnc_user_join_handler ::
  "(string list \<Rightarrow> guac_vnc_settings option) \<Rightarrow> int \<Rightarrow> guac_user \<Rightarrow> string list \<Rightarrow> guac_client
   \<Rightarrow> int \<times> guac_user \<times> guac_client" where
  "guac_vnc_user_join_handler guac_vnc_parse_args pthread_create user argv client =
     (let vnc_client = data client in
      case guac_vnc_parse_args argv of
        None \<Rightarrow>
          (1, user\<lparr>user_log := user_log user @
                     [(GUAC_LOG_INFO, ''Badly formatted client arguments.'')]\<rparr>, client)
      | Some parsed \<Rightarrow>
          let user1 = user\<lparr>user_data := Some parsed\<rparr>;
              install = (\<lambda>u. if \<not> read_only parsed
                              then u\<lparr>mouse_handler := Some Proc_guac_vnc_user_mouse_handler,
                                     key_handler := Some Proc_guac_vnc_user_key_handler,
                                     clipboard_handler := Some Proc_guac_vnc_clipboard_handler\<rparr>
                              else u)
          in
          if owner user then
            let client1 = client\<lparr>data := vnc_client\<lparr>settings := parsed\<rparr>\<rparr> in
            if pthread_create \<noteq> 0
            then (1, user1\<lparr>user_log := user_log user1 @
                            [(GUAC_LOG_ERROR, ''Unable to start VNC client thread.'')]\<rparr>, client1)
            else (0, install user1,
                  client1\<lparr>data := (data client1)\<lparr>client_thread := True\<rparr>\<rparr>)
          else
            let user2 = (case display vnc_client of
                           Some d \<Rightarrow> user1\<lparr>user_socket := user_socket user1 @ [Display_dup d]\<rparr>
                         | None \<Rightarrow> user1);
                user3 = user2\<lparr>user_socket := user_socket user2 @ [Socket_flush]\<rparr>
            in (0, install user3, client))"

subsection \<open>One iteration of the frame loop of \<^verbatim>\<open>guac_vnc_client_thread\<close>\<close>

text \<open>
  The constants of \<^verbatim>\<open>vnc.h\<close>, which is not among the sources, are parameters. The
  durations are in milliseconds, as in the code, except the frame start timeout, which is
  in microseconds.
\<close>

record guac_vnc_constants =
  GUAC_VNC_FRAME_DURATION :: int
  GUAC_VNC_FRAME_TIMEOUT :: int
  GUAC_VNC_FRAME_START_TIMEOUT :: int
  GUAC_VNC_CONNECT_INTERVAL :: int

text \<open>
  \<^verbatim>\<open>guac_vnc_wait_for_messages\<close>: no wait while the library holds buffered data,
  otherwise libvncclient's \<^verbatim>\<open>WaitForMessage\<close>, the first argument, with the timeout in
  microseconds.
\<close>

definition guac_vnc_wait_for_messages :: "(int \<Rightarrow> int) \<Rightarrow> rfbClient \<Rightarrow> int \<Rightarrow> int" where
  "guac_vnc_wait_for_messages WaitForMessage rfbc timeout =
     (if buffered rfbc \<noteq> 0 then 1 else WaitForMessage timeout)"

text \<open>
  Arithmetic in \<^verbatim>\<open>int\<close>: a result outside 32 bits is undefined in C (\<open>None\<close>). The
  conversion of a 64-bit timestamp difference to \<^verbatim>\<open>int\<close> keeps the low 32 bits.
\<close>

definition c_int :: "int \<Rightarrow> int option" where
  "c_int n = (if - (2 ^ 31) \<le> n \<and> n < 2 ^ 31 then Some n else None)"

definition int_of_timestamp :: "int \<Rightarrow> int" where
  "int_of_timestamp t = signed_take_bit 31 t"

text \<open>
  What the body of the \<^verbatim>\<open>do ... while (wait_result > 0)\<close> loop does after
  \<^verbatim>\<open>HandleRFBServerMessage\<close> has returned: it aborts the client and leaves the loop, or
  assigns to \<^verbatim>\<open>wait_result\<close> a call of \<^verbatim>\<open>guac_vnc_wait_for_messages\<close> with a timeout, or
  leaves the loop because the frame is complete.
\<close>

datatype frame_step =
    Abort_upstream_error
  | Wait_for_messages int
  | Frame_complete

definition frame_iteration ::
  "guac_vnc_constants \<Rightarrow> bool \<Rightarrow> int \<Rightarrow> int \<Rightarrow> int \<Rightarrow> int \<Rightarrow> frame_step option" where
  "frame_iteration k handled frame_start last_frame_end processing_lag frame_end =
     (if \<not> handled then Some Abort_upstream_error
      else
        let frame_remaining =
              int_of_timestamp (frame_start + GUAC_VNC_FRAME_DURATION k - frame_end);
            time_elapsed = int_of_timestamp (frame_end - last_frame_end)
        in do {
             required_wait \<leftarrow> c_int (processing_lag - time_elapsed);
             if required_wait > GUAC_VNC_FRAME_TIMEOUT k then
               do { timeout \<leftarrow> c_int (required_wait * 1000);
                    Some (Wait_for_messages timeout) }
             else if frame_remaining > 0 then
               do { timeout \<leftarrow> c_int (GUAC_VNC_FRAME_TIMEOUT k * 1000);
                    Some (Wait_for_messages timeout) }
             else Some Frame_complete
           })"

subsection \<open>Sequences of callbacks\<close>

text \<open>
  The library calls \<^verbatim>\<open>GotCopyRect\<close> and \<^verbatim>\<open>GotFrameBufferUpdate\<close> one after the other, each
  on the state the previous one left.
\<close>

datatype rfb_callback =
    GotFrameBufferUpdate_call int int int int
  | GotCopyRect_call int int int int int int

fun call_callback :: "rfbClient \<Rightarrow> rfb_callback \<Rightarrow> guac_client \<Rightarrow> guac_client option" where
  "call_callback client (GotFrameBufferUpdate_call x y w h) gc = guac_vnc_update client x y w h gc"
| "call_callback client (GotCopyRect_call src_x src_y w h dest_x dest_y) gc =
     guac_vnc_copyrect client src_x src_y w h dest_x dest_y gc"

fun call_callbacks :: "rfbClient \<Rightarrow> rfb_callback list \<Rightarrow> guac_client \<Rightarrow> guac_client option" where
  "call_callbacks client [] gc = Some gc"
| "call_callbacks client (c # cs) gc =
     do { gc' \<leftarrow> call_callback client c gc; call_callbacks client cs gc' }"

fun is_copyrect :: "rfb_callback \<Rightarrow> bool" where
  "is_copyrect (GotCopyRect_call src_x src_y w h dest_x dest_y) = True"
| "is_copyrect (GotFrameBufferUpdate_call x y w h) = False"

subsection \<open>The states of the scenarios\<close>

text \<open>
  A session as the specification's scenarios describe it: the owner has joined with
  default settings, the server advertises 1024 by 768 pixels and accepts the 32-bit
  format the client requests, the display exists and is still empty. The frame buffer is
  given by its first bytes.
\<close>

definition blank_format :: rfbPixelFormat where
  "blank_format = \<lparr>bitsPerPixel = 0, depth = 0, trueColour = 0, redMax = 0, greenMax = 0,
     blueMax = 0, redShift = 0, greenShift = 0, blueShift = 0\<rparr>"

definition blank_rfb_client :: rfbClient where
  "blank_rfb_client = \<lparr>format = blank_format, width = 0, height = 0, frameBuffer = [],
     rcSource = [], rcMask = [], buffered = 0, GotFrameBufferUpdate = None,
     GotCopyRect = None, GotXCutText = None, GotCursorShape = None, GetPassword = None,
     MallocFrameBuffer = Some (Proc_libvncclient ''MallocFrameBuffer''),
     canHandleNewFBSize = 0,
     appData = \<lparr>useRemoteCursor = False, encodingsString = None\<rparr>,
     serverHost = None, serverPort = 0, sent = []\<rparr>"

definition default_settings :: guac_vnc_settings where
  "default_settings = \<lparr>hostname = ''localhost'', port = 5900, password = None,
     encodings = None, swap_red_blue = False, color_depth = 32, read_only = False,
     remote_cursor = False, retries = 0, clipboard_encoding = None\<rparr>"

definition connecting_client :: guac_client where
  "connecting_client = \<lparr>data = \<lparr>rfb_client = None, rfb_MallocFrameBuffer = None,
       client_thread = True, settings = default_settings, display = None, copy_rect_used = 0,
       clipboard_reader = None, clipboard_writer = None\<rparr>,
     log_messages = [], socket = []\<rparr>"

definition connected_rfb_client :: "8 word list \<Rightarrow> rfbClient" where
  "connected_rfb_client fb =
     (fst (guac_vnc_get_client_setup blank_rfb_client connecting_client))
       \<lparr>width := 1024, height := 768, frameBuffer := fb\<rparr>"

definition connected_client :: "8 word list \<Rightarrow> guac_client" where
  "connected_client fb =
     (let vnc_client = data (snd (guac_vnc_set_clipboard_encoding
                (snd (guac_vnc_get_client_setup blank_rfb_client connecting_client)) None))
      in connecting_client\<lparr>data := vnc_client\<lparr>
           rfb_client := Some (connected_rfb_client fb),
           display := Some \<lparr>default_surface = [], cursor = [Cursor_set_pointer]\<rparr>\<rparr>\<rparr>)"

text \<open>The calls made so far on the default surface of the client's display.\<close>

definition surface_calls :: "guac_client \<Rightarrow> surface_call list" where
  "surface_calls gc = (case display (data gc) of Some d \<Rightarrow> default_surface d | None \<Rightarrow> [])"

text \<open>
  The exchange of byte 0 and byte 2 of a 32-bit word, bytes 1 and 3 staying in place:
  the operation of the swap-RB symmetry of the specification.
\<close>

definition swap_bytes_0_2 :: "32 word \<Rightarrow> 32 word" where
  "swap_bytes_0_2 p =
     push_bit 24 (drop_bit 24 p) OR push_bit 16 (take_bit 8 p)
     OR push_bit 8 (take_bit 8 (drop_bit 8 p)) OR take_bit 8 (drop_bit 16 p)"

text \<open>The eight frame buffer bytes of the first scenario.\<close>

definition scenario_bytes :: "8 word list" where
  "scenario_bytes = [0, 0, 0xFF, 0xFF, 0, 0xFF, 0, 0xFF]"

text \<open>
  The connected client of the scenarios with a cursor image of two pixels in one row:
  two black 32-bit pixels in \<^verbatim>\<open>rcSource\<close>, and in \<^verbatim>\<open>rcMask\<close> the bytes 1 and 0, the first
  pixel opaque and the second transparent.
\<close>

definition cursor_rfb_client :: rfbClient where
  "cursor_rfb_client =
     (connected_rfb_client [])\<lparr>rcSource := [0, 0, 0, 0, 0, 0, 0, 0], rcMask := [1, 0]\<rparr>"

text \<open>
  The mask bit that the words of the specification give the pixel \<open>(dx, dy)\<close> of a
  cursor \<open>w\<close> pixels wide: one bit per pixel, row-major, the most significant bit of a
  byte first, every row of \<open>(w + 7) div 8\<close> bytes.
\<close>

definition mask_bit_msb_first :: "8 word list \<Rightarrow> nat \<Rightarrow> nat \<Rightarrow> nat \<Rightarrow> bool" where
  "mask_bit_msb_first msk w dx dy =
     bit (msk ! (dy * ((w + 7) div 8) + dx div 8)) (7 - dx mod 8)"

text \<open>
  A session that is still connecting, once without and once with a display, and a guest
  who has not joined yet.
\<close>

definition connecting_client_with_display :: guac_client where
  "connecting_client_with_display =
     connecting_client\<lparr>data := (data connecting_client)\<lparr>
       display := Some \<lparr>default_surface = [], cursor = []\<rparr>\<rparr>\<rparr>"

definition guest_user :: guac_user where
  "guest_user = \<lparr>user_id = 2, owner = False, user_data = None, user_socket = [],
     user_log = [], mouse_handler = None, key_handler = None, clipboard_handler = None\<rparr>"

text \<open>An argument parser that accepts every argument list with the default settings.\<close>

definition parse_default :: "string list \<Rightarrow> guac_vnc_settings option" where
  "parse_default argv = Some default_settings"

text \<open>The default settings, read-only.\<close>

definition read_only_client :: guac_client where
  "read_only_client =
     connecting_client\<lparr>data := (data connecting_client)\<lparr>
       settings := default_settings\<lparr>read_only := True\<rparr>\<rparr>\<rparr>"

text \<open>
  The constants with the values the specification gives as examples: a frame of 40 ms,
  no wait within a frame, a frame start timeout of one second, five seconds between
  connection attempts.
\<close>

definition example_constants :: guac_vnc_constants where
  "example_constants = \<lparr>GUAC_VNC_FRAME_DURATION = 40, GUAC_VNC_FRAME_TIMEOUT = 0,
     GUAC_VNC_FRAME_START_TIMEOUT = 1000000, GUAC_VNC_CONNECT_INTERVAL = 5000\<rparr>"

section \<open>Verified properties\<close>

subsection \<open>Channel values\<close>

lemma unat_ucast_16_32: "unat (ucast (mx :: 16 word) :: 32 word) = unat mx"
  by (simp add: unsigned_ucast_eq take_bit_nat_eq_self
      order_less_trans [OF unsigned_less [of mx]])

lemma unat_divisor: "unat (ucast (mx :: 16 word) + 1 :: 32 word) = unat mx + 1"
proof -
  have "unat mx < 2 ^ 16" using unsigned_less [of mx] by simp
  then show ?thesis by (simp add: unat_word_ariths unat_ucast_16_32)
qed

lemma quotient_unat:
  "unat (channel_quotient v shift mx) =
     (unat (drop_bit (unat shift) v) * 256 mod 2 ^ 32) div (unat mx + 1)"
  unfolding channel_quotient_def unat_div unat_divisor
  by (simp add: unat_word_ariths)

lemma quotient_small:
  assumes "unat (drop_bit (unat shift) v) \<le> unat mx"
  shows "unat (channel_quotient v shift mx) < 256"
proof -
  let ?x = "unat (drop_bit (unat shift) v)"
  have "unat mx < 2 ^ 16" using unsigned_less [of mx] by simp
  with assms have "?x * 256 < 2 ^ 32" by simp
  then have "unat (channel_quotient v shift mx) = (?x * 256) div (unat mx + 1)"
    by (simp add: quotient_unat)
  also have "\<dots> < 256"
    using assms by (simp add: less_mult_imp_div_less)
  finally show ?thesis .
qed

lemma channel_unat: "unat (channel v shift mx) = unat (channel_quotient v shift mx) mod 256"
  by (simp add: channel_def unsigned_ucast_eq take_bit_eq_mod)

text \<open>
  Claim C1, as amended. For a channel descriptor with \<open>max \<ge> 1\<close> and a shift below 32,
  the quotient \<^verbatim>\<open>(v >> shift) * 256 / (max + 1)\<close> lies in \<open>[0, 256)\<close> for every raw value
  whose shifted value \<^verbatim>\<open>v >> shift\<close> is at most \<open>max\<close>. For every raw value, the channel
  the translator stores is the quotient modulo 256, the low 8 bits the \<^verbatim>\<open>unsigned char\<close>
  keeps, and so lies in \<open>[0, 256)\<close>.
\<close>

theorem channel_in_range:
  assumes "1 \<le> unat mx" and "unat shift < 32"
  shows "(unat (drop_bit (unat shift) v) \<le> unat mx \<longrightarrow>
            unat (channel_quotient v shift mx) < 256
            \<and> unat (channel v shift mx) = unat (channel_quotient v shift mx))
         \<and> unat (channel v shift mx) = unat (channel_quotient v shift mx) mod 256
         \<and> unat (channel v shift mx) < 256"
proof (intro conjI impI)
  assume small: "unat (drop_bit (unat shift) v) \<le> unat mx"
  then show "unat (channel_quotient v shift mx) < 256" by (rule quotient_small)
  then show "unat (channel v shift mx) = unat (channel_quotient v shift mx)"
    by (simp add: channel_unat)
next
  show "unat (channel v shift mx) = unat (channel_quotient v shift mx) mod 256"
    by (rule channel_unat)
next
  show "unat (channel v shift mx) < 256"
    by (simp add: channel_unat)
qed

text \<open>The red channel of a white pixel in the 16-bit format: shift 11, maximum 31.\<close>

theorem channel_in_range_witness:
  "1 \<le> unat (0x1F :: 16 word) \<and> unat (11 :: 8 word) < 32
   \<and> unat (drop_bit (unat (11 :: 8 word)) (0xFFFF :: 32 word)) \<le> unat (0x1F :: 16 word)
   \<and> unat (channel_quotient 0xFFFF 11 0x1F) < 256
   \<and> unat (channel 0xFFFF 11 0x1F) = unat (channel_quotient 0xFFFF 11 0x1F)"
proof -
  have h1: "1 \<le> unat (0x1F :: 16 word)" by simp
  have h2: "unat (11 :: 8 word) < 32" by simp
  have h3: "unat (drop_bit (unat (11 :: 8 word)) (0xFFFF :: 32 word)) \<le> unat (0x1F :: 16 word)"
    by (simp add: drop_bit_eq_div)
  show ?thesis
    using channel_in_range [OF h1 h2, of "0xFFFF"] h1 h2 h3 by blast
qed

text \<open>
  The green channel of the same pixel: shift 5, maximum 63. The bits of the red channel
  lie above it in the shifted value, and the quotient is 8188.
\<close>

theorem channel_quotient_counterexample:
  "\<not> unat (channel_quotient 0xFFFF 5 0x3F) < 256"
  by (simp add: channel_quotient_def)

subsection \<open>The scenario states\<close>

lemma connected_rfb_client_format:
  "bitsPerPixel (format (connected_rfb_client fb)) = 32"
  "redShift (format (connected_rfb_client fb)) = 16"
  "greenShift (format (connected_rfb_client fb)) = 8"
  "blueShift (format (connected_rfb_client fb)) = 0"
  "redMax (format (connected_rfb_client fb)) = 255"
  "greenMax (format (connected_rfb_client fb)) = 255"
  "blueMax (format (connected_rfb_client fb)) = 255"
  by (simp_all add: connected_rfb_client_def guac_vnc_get_client_setup_def
      guac_vnc_set_pixel_format_def connecting_client_def default_settings_def
      blank_rfb_client_def blank_format_def Let_def)

lemma connected_rfb_client_buffers:
  "frameBuffer (connected_rfb_client fb) = fb"
  "width (connected_rfb_client fb) = 1024"
  by (simp_all add: connected_rfb_client_def)

lemma connected_client_data:
  "copy_rect_used (data (connected_client fb)) = 0"
  "swap_red_blue (settings (data (connected_client fb))) = False"
  "display (data (connected_client fb)) =
     Some \<lparr>default_surface = [], cursor = [Cursor_set_pointer]\<rparr>"
  "rfb_client (data (connected_client fb)) = Some (connected_rfb_client fb)"
  by (simp_all add: connected_client_def guac_vnc_get_client_setup_def
      guac_vnc_set_clipboard_encoding_def connecting_client_def default_settings_def Let_def)

subsection \<open>A frame buffer update in the 32-bit format\<close>

lemma read_u32_at_0:
  "read_u32 (b0 # b1 # b2 # b3 # rest) 0 =
     Some (ucast b0 OR push_bit 8 (ucast b1) OR push_bit 16 (ucast b2) OR push_bit 24 (ucast b3))"
  by (simp add: read_u32_def read_u8_def)

lemma read_u32_at_4:
  "read_u32 (a0 # a1 # a2 # a3 # b0 # b1 # b2 # b3 # rest) 4 =
     Some (ucast b0 OR push_bit 8 (ucast b1) OR push_bit 16 (ucast b2) OR push_bit 24 (ucast b3))"
  by (simp add: read_u32_def read_u8_def)

lemma translate_rgb_32bpp:
  assumes "redShift fmt = 16" "greenShift fmt = 8" "blueShift fmt = 0"
      and "redMax fmt = 255" "greenMax fmt = 255" "blueMax fmt = 255"
  shows "translate_rgb fmt False 0xFFFF0000 = 0xFF0000"
    and "translate_rgb fmt False 0xFF00FF00 = 0x00FF00"
  using assms by (simp_all add: translate_rgb_def rgb_word_def channel_def channel_quotient_def)

lemma update_row_scenario:
  assumes "redShift fmt = 16" "greenShift fmt = 8" "blueShift fmt = 0"
      and "redMax fmt = 255" "greenMax fmt = 255" "blueMax fmt = 255"
  shows "update_row fmt False 4 ([0, 0, 0xFF, 0xFF, 0, 0xFF, 0, 0xFF] @ rest) (Suc (Suc 0)) 0
           = Some [0xFF0000, 0x00FF00]"
  by (simp add: read_pixel_def read_u32_at_0 read_u32_at_4 translate_rgb_32bpp [OF assms])

lemma guac_vnc_update_32bpp:
  assumes fmt: "bitsPerPixel (format client) = 32"
      "redShift (format client) = 16" "greenShift (format client) = 8"
      "blueShift (format client) = 0" "redMax (format client) = 255"
      "greenMax (format client) = 255" "blueMax (format client) = 255"
    and fb: "frameBuffer client = [0, 0, 0xFF, 0xFF, 0, 0xFF, 0, 0xFF] @ rest"
    and flag: "copy_rect_used (data gc) = 0"
    and swap: "\<not> swap_red_blue (settings (data gc))"
    and disp: "display (data gc) = Some d"
  shows "guac_vnc_update client 0 0 2 1 gc =
           Some (gc\<lparr>data := (data gc)\<lparr>display := Some (d\<lparr>default_surface :=
                   default_surface d @ [Surface_draw 0 0 2 1 8 [[0xFF0000, 0x00FF00]]]\<rparr>)\<rparr>\<rparr>)"
proof -
  have bpp: "(ucast (32 :: 8 word) div 8 :: 32 word) = 4" by simp
  have row: "update_row (format client) False 4 (frameBuffer client) 2 0
               = Some [0xFF0000, 0x00FF00]"
    unfolding fb numeral_2_eq_2 by (rule update_row_scenario) (rule fmt)+
  show ?thesis
    unfolding guac_vnc_update_def update_image_def Let_def
    using flag swap disp
    by (simp add: fmt bpp row del: update_row.simps)
qed

text \<open>
  Claim C2, as amended. With the 32-bit pixel format (red shift 16, green shift 8, blue
  shift 0, all channel maxima 255), \<^verbatim>\<open>swap_red_blue\<close> off and \<^verbatim>\<open>copy_rect_used\<close> clear, the
  callback \<^verbatim>\<open>GotFrameBufferUpdate(0, 0, 2, 1)\<close> over a frame buffer that starts with the
  bytes \<^verbatim>\<open>00 00 FF FF 00 FF 00 FF\<close> draws, at (0, 0), an image of one row whose two pixel
  words are \<open>0xFF0000\<close> and \<open>0x00FF00\<close>: the first pixel, read little-endian, is
  \<open>0xFFFF0000\<close>, whose red byte is \<open>0xFF\<close> and whose green and blue bytes are 0.
\<close>

theorem guac_vnc_update_scenario:
  assumes "bitsPerPixel (format client) = 32"
      "redShift (format client) = 16" "greenShift (format client) = 8"
      "blueShift (format client) = 0" "redMax (format client) = 255"
      "greenMax (format client) = 255" "blueMax (format client) = 255"
    and "frameBuffer client = [0, 0, 0xFF, 0xFF, 0, 0xFF, 0, 0xFF] @ rest"
    and "copy_rect_used (data gc) = 0"
    and "\<not> swap_red_blue (settings (data gc))"
    and "display (data gc) = Some d"
  shows "guac_vnc_update client 0 0 2 1 gc =
           Some (gc\<lparr>data := (data gc)\<lparr>display := Some (d\<lparr>default_surface :=
                   default_surface d @ [Surface_draw 0 0 2 1 8 [[0xFF0000, 0x00FF00]]]\<rparr>)\<rparr>\<rparr>)"
  using assms by (rule guac_vnc_update_32bpp)

theorem guac_vnc_update_scenario_witness:
  "map_option surface_calls
     (guac_vnc_update (connected_rfb_client [0, 0, 0xFF, 0xFF, 0, 0xFF, 0, 0xFF]) 0 0 2 1
        (connected_client [0, 0, 0xFF, 0xFF, 0, 0xFF, 0, 0xFF]))
   = Some [Surface_draw 0 0 2 1 8 [[0xFF0000, 0x00FF00]]]"
  using guac_vnc_update_scenario [OF connected_rfb_client_format, of _ "[]",
          OF _ connected_client_data(1) _ connected_client_data(3)]
  by (simp add: connected_rfb_client_buffers connected_client_data surface_calls_def)

text \<open>
  In the scenario of the specification the draw is not the one with the pixel words
  \<open>0x0000FF\<close> and \<open>0x00FF00\<close>.
\<close>

theorem guac_vnc_update_scenario_counterexample:
  "map_option surface_calls
     (guac_vnc_update (connected_rfb_client [0, 0, 0xFF, 0xFF, 0, 0xFF, 0, 0xFF]) 0 0 2 1
        (connected_client [0, 0, 0xFF, 0xFF, 0, 0xFF, 0, 0xFF]))
   \<noteq> Some [Surface_draw 0 0 2 1 8 [[0x0000FF, 0x00FF00]]]"
  using guac_vnc_update_32bpp [OF connected_rfb_client_format, of _ "[]",
          OF _ connected_client_data(1) _ connected_client_data(3)]
  by (simp add: connected_rfb_client_buffers connected_client_data surface_calls_def)

subsection \<open>The symmetry of \<^verbatim>\<open>swap_red_blue\<close>\<close>

lemma bit8_high: "8 \<le> i \<Longrightarrow> \<not> bit (w :: 8 word) i"
  using bit_imp_le_length [of w i] by auto

lemma swap_bytes_argb:
  fixes a r g b :: "8 word"
  shows "swap_bytes_0_2
           (push_bit 24 (ucast a) OR push_bit 16 (ucast r) OR push_bit 8 (ucast g) OR ucast b)
         = push_bit 24 (ucast a) OR push_bit 16 (ucast b) OR push_bit 8 (ucast g) OR ucast r"
  unfolding swap_bytes_0_2_def
proof (rule bit_word_eqI)
  fix n :: nat
  let ?p = "push_bit 24 (ucast a) OR push_bit 16 (ucast r) OR push_bit 8 (ucast g)
              OR (ucast b :: 32 word)"
  assume "n < LENGTH(32)"
  then consider "n < 8" | "8 \<le> n" "n < 16" | "16 \<le> n" "n < 24" | "24 \<le> n" "n < 32"
    by fastforce
  then show "bit (push_bit 24 (drop_bit 24 ?p) OR push_bit 16 (take_bit 8 ?p)
                  OR push_bit 8 (take_bit 8 (drop_bit 8 ?p)) OR take_bit 8 (drop_bit 16 ?p)) n
             = bit (push_bit 24 (ucast a) OR push_bit 16 (ucast b) OR push_bit 8 (ucast g)
                  OR (ucast r :: 32 word)) n"
    by cases (auto simp add: bit_simps bit8_high)
qed

lemma swap_bytes_rgb_word:
  "swap_bytes_0_2 (push_bit 24 (ucast (a :: 8 word)) OR rgb_word s r g b)
     = push_bit 24 (ucast a) OR rgb_word (\<not> s) r g b"
  by (simp add: rgb_word_def swap_bytes_argb)

lemma swap_bytes_translate_argb:
  "swap_bytes_0_2 (translate_argb fmt s m v) = translate_argb fmt (\<not> s) m v"
  by (simp add: translate_argb_def translate_rgb_def Let_def swap_bytes_rgb_word)

lemma swap_bytes_translate_rgb:
  "swap_bytes_0_2 (translate_rgb fmt s v) = translate_rgb fmt (\<not> s) v"
  using swap_bytes_rgb_word [of 0 s]
  by (simp add: translate_rgb_def Let_def)

lemma update_row_swap:
  "update_row fmt (\<not> s) bpp fb n p = map_option (map swap_bytes_0_2) (update_row fmt s bpp fb n p)"
proof (induction n arbitrary: p)
  case 0
  show ?case by simp
next
  case (Suc n)
  show ?case
    by (cases "read_pixel (uint bpp) fb p"; cases "update_row fmt s bpp fb n (p + uint bpp)")
       (simp_all add: Suc.IH swap_bytes_translate_rgb)
qed

lemma update_rows_swap:
  "update_rows fmt (\<not> s) bpp fb w fb_stride m p
     = map_option (map (map swap_bytes_0_2)) (update_rows fmt s bpp fb w fb_stride m p)"
proof (induction m arbitrary: p)
  case 0
  show ?case by simp
next
  case (Suc m)
  show ?case
    by (cases "update_row fmt s bpp fb w p";
        cases "update_rows fmt s bpp fb w fb_stride m (p + uint fb_stride)")
       (simp_all add: Suc.IH update_row_swap)
qed

lemma cursor_row_swap:
  "cursor_row fmt (\<not> s) bpp src msk n p q
     = map_option (map_prod (map swap_bytes_0_2) id) (cursor_row fmt s bpp src msk n p q)"
proof (induction n arbitrary: p q)
  case 0
  show ?case by simp
next
  case (Suc n)
  show ?case
    by (cases "read_pixel bpp src p"; cases "read_u8 msk q";
        cases "cursor_row fmt s bpp src msk n (p + bpp) (q + 1)")
       (auto simp add: Suc.IH swap_bytes_translate_argb)
qed

lemma cursor_rows_swap:
  "cursor_rows fmt (\<not> s) bpp src msk w fb_stride k p q
     = map_option (map (map swap_bytes_0_2)) (cursor_rows fmt s bpp src msk w fb_stride k p q)"
proof (induction k arbitrary: p q)
  case 0
  show ?case by simp
next
  case (Suc k)
  show ?case
  proof (cases "cursor_row fmt s bpp src msk w p q")
    case None
    then show ?thesis by (simp add: cursor_row_swap)
  next
    case (Some rq)
    obtain row q' where rq: "rq = (row, q')" by (cases rq)
    show ?thesis
      by (cases "cursor_rows fmt s bpp src msk w fb_stride k (p + uint fb_stride) q'")
         (simp_all add: Some rq cursor_row_swap Suc.IH)
  qed
qed

text \<open>
  Claim C6. For every pixel format, every raw buffer and every rectangle, the translation
  of \<^verbatim>\<open>guac_vnc_update\<close> and the translation of \<^verbatim>\<open>guac_vnc_cursor\<close>, run with
  \<^verbatim>\<open>swap_red_blue\<close> on and followed by the exchange of bytes 0 and 2 of every output word,
  give the output of the translation with \<^verbatim>\<open>swap_red_blue\<close> off, and the other way
  round; one translation reads outside its buffers exactly when the other does.
\<close>

theorem swap_red_blue_symmetry:
  "map_option (map (map swap_bytes_0_2)) (update_image client True x y w h)
     = update_image client False x y w h
   \<and> map_option (map (map swap_bytes_0_2)) (update_image client False x y w h)
     = update_image client True x y w h
   \<and> map_option (map (map swap_bytes_0_2)) (cursor_image client True w h bpp)
     = cursor_image client False w h bpp
   \<and> map_option (map (map swap_bytes_0_2)) (cursor_image client False w h bpp)
     = cursor_image client True w h bpp"
  unfolding update_image_def cursor_image_def Let_def
  using update_rows_swap [of _ True] update_rows_swap [of _ False]
        cursor_rows_swap [of _ True] cursor_rows_swap [of _ False]
  by simp

subsection \<open>CopyRect and the update that follows it\<close>

lemma guac_vnc_copyrect_result:
  assumes "display (data gc) = Some d"
  shows "guac_vnc_copyrect client src_x src_y w h dest_x dest_y gc =
           Some (gc\<lparr>data := (data gc)\<lparr>
                   display := Some (d\<lparr>default_surface :=
                     default_surface d @ [Surface_copy src_x src_y w h dest_x dest_y]\<rparr>),
                   copy_rect_used := 1\<rparr>\<rparr>)"
  using assms by (simp add: guac_vnc_copyrect_def)

lemma guac_vnc_update_suppressed:
  assumes "copy_rect_used (data gc) \<noteq> 0"
  shows "guac_vnc_update client x y w h gc = Some (gc\<lparr>data := (data gc)\<lparr>copy_rect_used := 0\<rparr>\<rparr>)"
  using assms by (simp add: guac_vnc_update_def)

lemma guac_vnc_update_draws:
  assumes "copy_rect_used (data gc) = 0" and "display (data gc) = Some d"
    and "update_image client (swap_red_blue (settings (data gc))) x y w h = Some buffer"
  shows "guac_vnc_update client x y w h gc =
           Some (gc\<lparr>data := (data gc)\<lparr>display := Some (d\<lparr>default_surface :=
                   default_surface d @ [Surface_draw x y w h (w * 4) buffer]\<rparr>)\<rparr>\<rparr>)"
  using assms by (simp add: guac_vnc_update_def Let_def)

lemma call_callback_flag:
  assumes "call_callback client c gc = Some gc'"
  shows "copy_rect_used (data gc') = (if is_copyrect c then 1 else 0)"
proof (cases c)
  case (GotFrameBufferUpdate_call x y w h)
  show ?thesis
  proof (cases "copy_rect_used (data gc) = 0")
    case True
    with assms GotFrameBufferUpdate_call show ?thesis
      by (auto simp add: guac_vnc_update_def Let_def split: Option.bind_splits)
  next
    case False
    with assms GotFrameBufferUpdate_call show ?thesis
      by (auto simp add: guac_vnc_update_suppressed)
  qed
next
  case (GotCopyRect_call src_x src_y w h dest_x dest_y)
  with assms show ?thesis
    by (auto simp add: guac_vnc_copyrect_def Let_def split: Option.bind_splits)
qed

lemma call_callbacks_snoc:
  "call_callbacks client (cs @ [c]) gc =
     call_callbacks client cs gc \<bind> call_callback client c"
  by (induction cs arbitrary: gc) (simp_all split: Option.bind_splits)

lemma call_callbacks_flag:
  assumes "copy_rect_used (data gc0) = 0" and "call_callbacks client cs gc0 = Some gc"
  shows "copy_rect_used (data gc) = (if cs \<noteq> [] \<and> is_copyrect (last cs) then 1 else 0)"
proof (cases cs rule: rev_cases)
  case Nil
  with assms show ?thesis by simp
next
  case (snoc cs' c)
  with assms(2) obtain gc1 where "call_callback client c gc1 = Some gc"
    by (auto simp add: call_callbacks_snoc split: Option.bind_splits)
  then show ?thesis using snoc by (simp add: call_callback_flag)
qed

text \<open>
  Claim C3. Let any sequence of \<^verbatim>\<open>GotCopyRect\<close> and \<^verbatim>\<open>GotFrameBufferUpdate\<close> callbacks
  run from a session whose \<^verbatim>\<open>copy_rect_used\<close> flag is clear. Afterwards the flag is set
  exactly when the last callback was a \<^verbatim>\<open>GotCopyRect\<close>. A \<^verbatim>\<open>GotCopyRect\<close> that comes
  next makes one surface copy and sets the flag, and the \<^verbatim>\<open>GotFrameBufferUpdate\<close>
  right after it clears the flag and returns without a draw, so that the pair makes one
  call on the surface. A \<^verbatim>\<open>GotFrameBufferUpdate\<close> that comes next when the last
  callback was not a \<^verbatim>\<open>GotCopyRect\<close> leaves the flag clear and draws the image it
  translated from the frame buffer.
\<close>

theorem copy_rect_suppression:
  assumes "copy_rect_used (data gc0) = 0"
    and "call_callbacks client cs gc0 = Some gc"
    and "display (data gc) = Some d"
  shows "copy_rect_used (data gc) = (if cs \<noteq> [] \<and> is_copyrect (last cs) then 1 else 0)
    \<and> guac_vnc_copyrect client src_x src_y cw ch dest_x dest_y gc =
           Some (gc\<lparr>data := (data gc)\<lparr>
                   display := Some (d\<lparr>default_surface :=
                     default_surface d @ [Surface_copy src_x src_y cw ch dest_x dest_y]\<rparr>),
                   copy_rect_used := 1\<rparr>\<rparr>)
    \<and> guac_vnc_copyrect client src_x src_y cw ch dest_x dest_y gc
           \<bind> guac_vnc_update client x y w h =
           Some (gc\<lparr>data := (data gc)\<lparr>
                   display := Some (d\<lparr>default_surface :=
                     default_surface d @ [Surface_copy src_x src_y cw ch dest_x dest_y]\<rparr>),
                   copy_rect_used := 0\<rparr>\<rparr>)
    \<and> (\<not> (cs \<noteq> [] \<and> is_copyrect (last cs)) \<longrightarrow>
         update_image client (swap_red_blue (settings (data gc))) x y w h = Some buffer \<longrightarrow>
         guac_vnc_update client x y w h gc =
           Some (gc\<lparr>data := (data gc)\<lparr>display := Some (d\<lparr>default_surface :=
                   default_surface d @ [Surface_draw x y w h (w * 4) buffer]\<rparr>)\<rparr>\<rparr>))"
proof (intro conjI impI)
  show flag: "copy_rect_used (data gc) = (if cs \<noteq> [] \<and> is_copyrect (last cs) then 1 else 0)"
    using assms(1, 2) by (rule call_callbacks_flag)
  show "guac_vnc_copyrect client src_x src_y cw ch dest_x dest_y gc =
           Some (gc\<lparr>data := (data gc)\<lparr>
                   display := Some (d\<lparr>default_surface :=
                     default_surface d @ [Surface_copy src_x src_y cw ch dest_x dest_y]\<rparr>),
                   copy_rect_used := 1\<rparr>\<rparr>)"
    using assms(3) by (rule guac_vnc_copyrect_result)
  show "guac_vnc_copyrect client src_x src_y cw ch dest_x dest_y gc
           \<bind> guac_vnc_update client x y w h =
           Some (gc\<lparr>data := (data gc)\<lparr>
                   display := Some (d\<lparr>default_surface :=
                     default_surface d @ [Surface_copy src_x src_y cw ch dest_x dest_y]\<rparr>),
                   copy_rect_used := 0\<rparr>\<rparr>)"
    by (simp add: guac_vnc_copyrect_result [OF assms(3)] guac_vnc_update_suppressed)
  assume "\<not> (cs \<noteq> [] \<and> is_copyrect (last cs))"
    and "update_image client (swap_red_blue (settings (data gc))) x y w h = Some buffer"
  with flag assms(3) show "guac_vnc_update client x y w h gc =
           Some (gc\<lparr>data := (data gc)\<lparr>display := Some (d\<lparr>default_surface :=
                   default_surface d @ [Surface_draw x y w h (w * 4) buffer]\<rparr>)\<rparr>\<rparr>)"
    by (auto intro: guac_vnc_update_draws)
qed

lemma update_image_32bpp:
  assumes fmt: "bitsPerPixel (format client) = 32"
      "redShift (format client) = 16" "greenShift (format client) = 8"
      "blueShift (format client) = 0" "redMax (format client) = 255"
      "greenMax (format client) = 255" "blueMax (format client) = 255"
    and fb: "frameBuffer client = [0, 0, 0xFF, 0xFF, 0, 0xFF, 0, 0xFF] @ rest"
  shows "update_image client False 0 0 2 1 = Some [[0xFF0000, 0x00FF00]]"
proof -
  have bpp: "(ucast (32 :: 8 word) div 8 :: 32 word) = 4" by simp
  have row: "update_row (format client) False 4 (frameBuffer client) 2 0
               = Some [0xFF0000, 0x00FF00]"
    unfolding fb numeral_2_eq_2 by (rule update_row_scenario) (rule fmt)+
  show ?thesis
    unfolding update_image_def Let_def
    by (simp add: fmt bpp row del: update_row.simps)
qed

text \<open>
  In the first scenario a \<^verbatim>\<open>GotCopyRect\<close> and the \<^verbatim>\<open>GotFrameBufferUpdate\<close> after it leave
  one copy on the surface and the flag clear, and the next update draws.
\<close>

theorem copy_rect_suppression_witness:
  "copy_rect_used (data (connected_client scenario_bytes)) = 0
   \<and> call_callbacks (connected_rfb_client scenario_bytes)
        [GotCopyRect_call 0 0 2 1 5 5, GotFrameBufferUpdate_call 5 5 2 1]
        (connected_client scenario_bytes)
      = Some ((connected_client scenario_bytes)\<lparr>data := (data (connected_client scenario_bytes))\<lparr>
                display := Some \<lparr>default_surface = [Surface_copy 0 0 2 1 5 5],
                                 cursor = [Cursor_set_pointer]\<rparr>,
                copy_rect_used := 0\<rparr>\<rparr>)
   \<and> update_image (connected_rfb_client scenario_bytes) False 0 0 2 1
      = Some [[0xFF0000, 0x00FF00]]
   \<and> guac_vnc_update (connected_rfb_client scenario_bytes) 0 0 2 1
        ((connected_client scenario_bytes)\<lparr>data := (data (connected_client scenario_bytes))\<lparr>
                display := Some \<lparr>default_surface = [Surface_copy 0 0 2 1 5 5],
                                 cursor = [Cursor_set_pointer]\<rparr>,
                copy_rect_used := 0\<rparr>\<rparr>)
      = Some ((connected_client scenario_bytes)\<lparr>data := (data (connected_client scenario_bytes))\<lparr>
                display := Some \<lparr>default_surface =
                                   [Surface_copy 0 0 2 1 5 5,
                                    Surface_draw 0 0 2 1 8 [[0xFF0000, 0x00FF00]]],
                                 cursor = [Cursor_set_pointer]\<rparr>,
                copy_rect_used := 0\<rparr>\<rparr>)"
proof -
  let ?C = "connected_rfb_client scenario_bytes"
  let ?G0 = "connected_client scenario_bytes"
  let ?D1 = "\<lparr>default_surface = [Surface_copy 0 0 2 1 5 5], cursor = [Cursor_set_pointer]\<rparr>"
  let ?G1 = "?G0\<lparr>data := (data ?G0)\<lparr>display := Some ?D1, copy_rect_used := 0\<rparr>\<rparr>"
  let ?cs = "[GotCopyRect_call 0 0 2 1 5 5, GotFrameBufferUpdate_call 5 5 2 1]"
  have h1: "copy_rect_used (data ?G0) = 0" by (simp add: connected_client_data)
  have h2: "call_callbacks ?C ?cs ?G0 = Some ?G1"
    by (simp add: guac_vnc_copyrect_result [OF connected_client_data(3)]
          guac_vnc_update_suppressed)
  have h3: "display (data ?G1) = Some ?D1" by simp
  have img: "update_image ?C False 0 0 2 1 = Some [[0xFF0000, 0x00FF00]]"
    by (rule update_image_32bpp [where rest = "[]"])
       (simp_all add: connected_rfb_client_format connected_rfb_client_buffers scenario_bytes_def)
  have sw: "swap_red_blue (settings (data ?G1)) = False" by (simp add: connected_client_data)
  show ?thesis
    using copy_rect_suppression [OF h1 h2 h3, of 0 0 2 1 5 5 0 0 2 1 "[[0xFF0000, 0x00FF00]]"]
          h1 h2 img sw
    by simp
qed

subsection \<open>The cursor image and its mask\<close>

lemma read_pixel_in_bounds:
  assumes "bpp = 1 \<or> bpp = 2 \<or> bpp = 4" and "0 \<le> p" and "p + bpp \<le> int (length src)"
  shows "\<exists>v. read_pixel bpp src p = Some v"
  using assms by (auto simp add: read_pixel_def read_u32_def read_u16_def read_u8_def)

lemma cursor_row_pixels:
  assumes "bpp = 1 \<or> bpp = 2 \<or> bpp = 4" and "0 \<le> p" and "0 \<le> q"
    and "p + int n * bpp \<le> int (length src)" and "q + int n \<le> int (length msk)"
  shows "\<exists>row. cursor_row fmt s bpp src msk n p q = Some (row, q + int n)
           \<and> length row = n
           \<and> (\<forall>i<n. \<exists>v. read_pixel bpp src (p + int i * bpp) = Some v
                  \<and> row ! i = translate_argb fmt s (msk ! nat (q + int i)) v)"
  using assms(2-)
proof (induction n arbitrary: p q)
  case 0
  show ?case by simp
next
  case (Suc n)
  have pos: "0 < bpp" using assms(1) by auto
  then have nb: "0 \<le> int n * bpp" by simp
  have split: "int (Suc n) * bpp = bpp + int n * bpp" by (simp add: algebra_simps)
  from Suc.prems nb split have "p + bpp \<le> int (length src)" by linarith
  with assms(1) Suc.prems obtain v where v: "read_pixel bpp src p = Some v"
    using read_pixel_in_bounds by blast
  from Suc.prems have m: "read_u8 msk q = Some (msk ! nat q)"
    by (simp add: read_u8_def)
  have "\<exists>row. cursor_row fmt s bpp src msk n (p + bpp) (q + 1) = Some (row, q + 1 + int n)
           \<and> length row = n
           \<and> (\<forall>i<n. \<exists>v. read_pixel bpp src (p + bpp + int i * bpp) = Some v
                  \<and> row ! i = translate_argb fmt s (msk ! nat (q + 1 + int i)) v)"
  proof (rule Suc.IH)
    show "0 \<le> p + bpp" using Suc.prems pos by linarith
    show "0 \<le> q + 1" using Suc.prems by linarith
    show "p + bpp + int n * bpp \<le> int (length src)" using Suc.prems split by linarith
    show "q + 1 + int n \<le> int (length msk)" using Suc.prems by simp
  qed
  then obtain row where row: "cursor_row fmt s bpp src msk n (p + bpp) (q + 1) = Some (row, q + 1 + int n)"
    and len: "length row = n"
    and px: "\<And>i. i < n \<Longrightarrow> \<exists>v. read_pixel bpp src (p + bpp + int i * bpp) = Some v
                  \<and> row ! i = translate_argb fmt s (msk ! nat (q + 1 + int i)) v"
    by blast
  let ?row = "translate_argb fmt s (msk ! nat q) v # row"
  have res: "cursor_row fmt s bpp src msk (Suc n) p q = Some (?row, q + int (Suc n))"
    by (simp add: v m row)
  have all: "\<exists>v'. read_pixel bpp src (p + int i * bpp) = Some v'
                  \<and> ?row ! i = translate_argb fmt s (msk ! nat (q + int i)) v'"
    if "i < Suc n" for i
  proof (cases i)
    case 0
    then show ?thesis by (simp add: v)
  next
    case (Suc j)
    with that have "j < n" by simp
    from px [OF this] obtain v' where "read_pixel bpp src (p + bpp + int j * bpp) = Some v'"
      and "row ! j = translate_argb fmt s (msk ! nat (q + 1 + int j)) v'" by blast
    moreover have "p + bpp + int j * bpp = p + int (Suc j) * bpp" by (simp add: algebra_simps)
    moreover have "q + 1 + int j = q + int (Suc j)" by simp
    ultimately show ?thesis using Suc by (simp del: of_nat_Suc)
  qed
  from res len all show ?case by (intro exI [of _ ?row]) simp
qed

lemma cursor_rows_pixels:
  assumes "bpp = 1 \<or> bpp = 2 \<or> bpp = 4" and "uint fb_stride = int w * bpp"
    and "0 \<le> p" and "0 \<le> q"
    and "p + int k * (int w * bpp) \<le> int (length src)"
    and "q + int k * int w \<le> int (length msk)"
  shows "\<exists>rows. cursor_rows fmt s bpp src msk w fb_stride k p q = Some rows
           \<and> length rows = k
           \<and> (\<forall>j<k. length (rows ! j) = w
                \<and> (\<forall>i<w. \<exists>v. read_pixel bpp src (p + (int j * int w + int i) * bpp) = Some v
                       \<and> rows ! j ! i
                           = translate_argb fmt s (msk ! nat (q + int j * int w + int i)) v))"
  using assms(3-)
proof (induction k arbitrary: p q)
  case 0
  show ?case by simp
next
  case (Suc k)
  have pos: "0 < bpp" using assms(1) by auto
  then have wb: "0 \<le> int w * bpp" by simp
  then have kwb: "0 \<le> int k * (int w * bpp)" by simp
  have kw: "0 \<le> int k * int w" by simp
  have split: "int (Suc k) * (int w * bpp) = int w * bpp + int k * (int w * bpp)"
    by (simp add: algebra_simps)
  have split': "int (Suc k) * int w = int w + int k * int w"
    by (simp add: algebra_simps)
  have "\<exists>row. cursor_row fmt s bpp src msk w p q = Some (row, q + int w)
           \<and> length row = w
           \<and> (\<forall>i<w. \<exists>v. read_pixel bpp src (p + int i * bpp) = Some v
                  \<and> row ! i = translate_argb fmt s (msk ! nat (q + int i)) v)"
  proof (rule cursor_row_pixels [OF assms(1)])
    show "0 \<le> p" "0 \<le> q" using Suc.prems by simp_all
    show "p + int w * bpp \<le> int (length src)" using Suc.prems kwb split by linarith
    show "q + int w \<le> int (length msk)" using Suc.prems kw split' by linarith
  qed
  then obtain row where row: "cursor_row fmt s bpp src msk w p q = Some (row, q + int w)"
    and len: "length row = w"
    and px: "\<And>i. i < w \<Longrightarrow> \<exists>v. read_pixel bpp src (p + int i * bpp) = Some v
                  \<and> row ! i = translate_argb fmt s (msk ! nat (q + int i)) v"
    by blast
  have "\<exists>rows. cursor_rows fmt s bpp src msk w fb_stride k (p + int w * bpp) (q + int w) = Some rows
           \<and> length rows = k
           \<and> (\<forall>j<k. length (rows ! j) = w
                \<and> (\<forall>i<w. \<exists>v. read_pixel bpp src (p + int w * bpp + (int j * int w + int i) * bpp) = Some v
                       \<and> rows ! j ! i
                           = translate_argb fmt s (msk ! nat (q + int w + int j * int w + int i)) v))"
  proof (rule Suc.IH)
    show "0 \<le> p + int w * bpp" using Suc.prems wb by linarith
    show "0 \<le> q + int w" using Suc.prems by linarith
    show "p + int w * bpp + int k * (int w * bpp) \<le> int (length src)"
      using Suc.prems split by linarith
    show "q + int w + int k * int w \<le> int (length msk)" using Suc.prems split' by linarith
  qed
  then obtain rows where rows: "cursor_rows fmt s bpp src msk w fb_stride k (p + int w * bpp) (q + int w) = Some rows"
    and lens: "length rows = k"
    and pxs: "\<And>j. j < k \<Longrightarrow> length (rows ! j) = w
                \<and> (\<forall>i<w. \<exists>v. read_pixel bpp src (p + int w * bpp + (int j * int w + int i) * bpp) = Some v
                       \<and> rows ! j ! i
                           = translate_argb fmt s (msk ! nat (q + int w + int j * int w + int i)) v)"
    by blast
  have res: "cursor_rows fmt s bpp src msk w fb_stride (Suc k) p q = Some (row # rows)"
    by (simp add: row rows assms(2))
  have all: "length ((row # rows) ! j) = w
                \<and> (\<forall>i<w. \<exists>v. read_pixel bpp src (p + (int j * int w + int i) * bpp) = Some v
                       \<and> (row # rows) ! j ! i
                           = translate_argb fmt s (msk ! nat (q + int j * int w + int i)) v)"
    if "j < Suc k" for j
  proof (cases j)
    case 0
    then show ?thesis using len px by simp
  next
    case (Suc j')
    with that have j': "j' < k" by simp
    have e1: "p + int w * bpp + (int j' * int w + int i) * bpp
                = p + (int (Suc j') * int w + int i) * bpp" for i
      by (simp add: algebra_simps)
    have e2: "q + int w + int j' * int w + int i = q + int (Suc j') * int w + int i" for i
      by (simp add: algebra_simps)
    from pxs [OF j'] show ?thesis
      unfolding Suc e1 e2 by simp
  qed
  from res lens all show ?case by (intro exI [of _ "row # rows"]) simp
qed

lemma uint_fb_stride:
  assumes "0 \<le> w" and "bpp = 1 \<or> bpp = 2 \<or> bpp = 4" and "w * bpp < 2 ^ 31"
  shows "uint (word_of_int (bpp * w) :: 32 word) = int (nat w) * bpp"
proof -
  have "0 \<le> bpp * w" using assms(1, 2) by auto
  moreover have "bpp * w < 2 ^ 32" using assms(3) by (simp add: mult.commute)
  ultimately have tb: "take_bit 32 (bpp * w) = bpp * w" by (simp add: take_bit_int_eq_self)
  have "uint (word_of_int (bpp * w) :: 32 word) = take_bit LENGTH(32) (bpp * w)"
    by (rule uint_word_of_int_eq)
  also have "\<dots> = bpp * w" using tb by simp
  also have "\<dots> = int (nat w) * bpp" using assms(1) by (simp add: mult.commute)
  finally show ?thesis .
qed

text \<open>
  Claim C5, as amended. When it translates a cursor image of width \<open>w\<close> and height \<open>h\<close>
  (with 1, 2 or 4 bytes per pixel, and both buffers holding the whole image), the
  translator steps in parallel through a mask buffer of one byte per pixel, row-major:
  the pixel \<open>(dx, dy)\<close> is read at pixel index \<open>dy * w + dx\<close> of \<^verbatim>\<open>rcSource\<close>, its mask
  is the byte \<open>dy * w + dx\<close> of \<^verbatim>\<open>rcMask\<close>, its alpha is \<open>0xFF\<close> where that byte is
  non-zero and \<open>0x00\<close> otherwise, and its output word is \<^verbatim>\<open>(alpha << 24) | rest\<close>.
\<close>

theorem cursor_mask_alpha:
  assumes "bpp = 1 \<or> bpp = 2 \<or> bpp = 4" and "0 \<le> w" and "0 \<le> h"
    and "w * bpp < 2 ^ 31"
    and "h * (w * bpp) \<le> int (length (rcSource client))"
    and "h * w \<le> int (length (rcMask client))"
  shows "\<exists>rows. cursor_image client swap w h bpp = Some rows
           \<and> length rows = nat h
           \<and> (\<forall>dy < nat h. length (rows ! dy) = nat w
                \<and> (\<forall>dx < nat w. \<exists>v.
                      read_pixel bpp (rcSource client) (int (dy * nat w + dx) * bpp) = Some v
                      \<and> rows ! dy ! dx =
                          push_bit 24 (ucast (if rcMask client ! (dy * nat w + dx) \<noteq> 0
                                              then 0xFF else 0x00 :: 8 word))
                          OR translate_rgb (format client) swap v))"
proof -
  have stride: "uint (word_of_int (bpp * w) :: 32 word) = int (nat w) * bpp"
    using assms(2, 1, 4) by (rule uint_fb_stride)
  have src: "0 + int (nat h) * (int (nat w) * bpp) \<le> int (length (rcSource client))"
    using assms(2, 3, 5) by simp
  have msk: "0 + int (nat h) * int (nat w) \<le> int (length (rcMask client))"
    using assms(2, 3, 6) by simp
  have idx: "nat (0 + int j * int (nat w) + int i) = j * nat w + i" for i j
    by (simp add: nat_add_distrib nat_mult_distrib)
  have off: "0 + (int j * int (nat w) + int i) * bpp = int (j * nat w + i) * bpp" for i j
    by simp
  from cursor_rows_pixels [OF assms(1) stride order_refl order_refl src msk,
      of "format client" swap]
  show ?thesis
    unfolding cursor_image_def Let_def translate_argb_def mask_alpha_def idx off
    by simp
qed

theorem cursor_mask_alpha_witness:
  "((4 :: int) = 1 \<or> (4 :: int) = 2 \<or> (4 :: int) = 4)
   \<and> (2 :: int) * 4 < 2 ^ 31
   \<and> (1 :: int) * (2 * 4) \<le> int (length (rcSource cursor_rfb_client))
   \<and> (1 :: int) * 2 \<le> int (length (rcMask cursor_rfb_client))
   \<and> (\<exists>rows. cursor_image cursor_rfb_client False 2 1 4 = Some rows
           \<and> length rows = nat 1
           \<and> (\<forall>dy < nat 1. length (rows ! dy) = nat 2
                \<and> (\<forall>dx < nat 2. \<exists>v.
                      read_pixel 4 (rcSource cursor_rfb_client) (int (dy * nat 2 + dx) * 4) = Some v
                      \<and> rows ! dy ! dx =
                          push_bit 24 (ucast (if rcMask cursor_rfb_client ! (dy * nat 2 + dx) \<noteq> 0
                                              then 0xFF else 0x00 :: 8 word))
                          OR translate_rgb (format cursor_rfb_client) False v)))"
proof -
  have h1: "(4 :: int) = 1 \<or> (4 :: int) = 2 \<or> (4 :: int) = 4" by simp
  have h2: "(0 :: int) \<le> 2" and h3: "(0 :: int) \<le> 1" by simp_all
  have h4: "(2 :: int) * 4 < 2 ^ 31" by simp
  have h5: "(1 :: int) * (2 * 4) \<le> int (length (rcSource cursor_rfb_client))"
    by (simp add: cursor_rfb_client_def)
  have h6: "(1 :: int) * 2 \<le> int (length (rcMask cursor_rfb_client))"
    by (simp add: cursor_rfb_client_def)
  show ?thesis
    using cursor_mask_alpha [OF h1 h2 h3 h4 h5 h6, of False] h1 h4 h5 h6 by blast
qed

text \<open>
  For the cursor of two pixels whose mask bytes are 1 and 0, the first pixel is opaque,
  alpha \<open>0xFF\<close>, while the most significant bit of the first mask byte, its mask bit in a
  buffer of one bit per pixel, is 0.
\<close>

theorem cursor_mask_bit_counterexample:
  "cursor_image cursor_rfb_client False 2 1 4 = Some [[0xFF000000, 0x00000000]]
   \<and> \<not> mask_bit_msb_first (rcMask cursor_rfb_client) 2 0 0"
proof
  have fmt: "translate_rgb (format cursor_rfb_client) False 0 = 0"
    by (simp add: translate_rgb_def rgb_word_def channel_def channel_quotient_def)
  have rd: "read_pixel 4 [0, 0, 0, 0, 0, 0, 0, 0] 0 = Some 0"
    "read_pixel 4 [0, 0, 0, 0, 0, 0, 0, 0] 4 = Some 0"
    by (simp_all add: read_pixel_def read_u32_def read_u8_def)
  have row: "cursor_row (format cursor_rfb_client) False 4 [0, 0, 0, 0, 0, 0, 0, 0] [1, 0]
               (Suc (Suc 0)) 0 0 = Some ([0xFF000000, 0x00000000], 2)"
    by (simp add: rd fmt read_u8_def translate_argb_def mask_alpha_def)
  have src: "rcSource cursor_rfb_client = [0, 0, 0, 0, 0, 0, 0, 0]"
    and msk: "rcMask cursor_rfb_client = [1, 0]"
    by (simp_all add: cursor_rfb_client_def)
  have n2: "nat 2 = Suc (Suc 0)" and n1: "nat 1 = Suc 0" by simp_all
  show "cursor_image cursor_rfb_client False 2 1 4 = Some [[0xFF000000, 0x00000000]]"
    unfolding cursor_image_def Let_def src msk n2 n1
    by (simp add: row del: cursor_row.simps)
  show "\<not> mask_bit_msb_first (rcMask cursor_rfb_client) 2 0 0"
    by (simp add: mask_bit_msb_first_def msk bit_numeral_simps)
qed

subsection \<open>Input events while the session is connecting\<close>

lemma key_handler_connecting:
  assumes "rfb_client (data client) = None"
  shows "guac_vnc_user_key_handler user keysym pressed client = (0, client)"
  using assms by (simp add: guac_vnc_user_key_handler_def)

lemma clipboard_handler_connecting:
  assumes "rfb_client (data client) = None"
  shows "guac_vnc_clipboard_handler guac_iconv user text_utf8 client = Some (0, client)"
  using assms by (simp add: guac_vnc_clipboard_handler_def)

lemma mouse_handler_connecting:
  assumes "rfb_client (data client) = None" and "display (data client) = Some d"
  shows "guac_vnc_user_mouse_handler user x y button_mask client =
           Some (0, client\<lparr>data := (data client)\<lparr>display := Some
                   (d\<lparr>cursor := cursor d @ [Cursor_update (user_id user) x y button_mask]\<rparr>)\<rparr>\<rparr>)"
  using assms by (simp add: guac_vnc_user_mouse_handler_def)

text \<open>
  Claim C4, as amended. While the RFB handle of the session is still null, a key event
  and a clipboard event are dropped without any effect: the handler returns 0 and the
  client is unchanged, so that no RFB message is sent and no state is modified. A mouse
  event sends no RFB message either, but the handler does modify state: when the
  display exists, it records the position and the buttons of the mouse in the cursor of
  the display, and changes nothing else.
\<close>

theorem input_while_connecting:
  assumes "rfb_client (data client) = None"
  shows "guac_vnc_user_key_handler user keysym pressed client = (0, client)
    \<and> guac_vnc_clipboard_handler guac_iconv user text_utf8 client = Some (0, client)
    \<and> (\<forall>d. display (data client) = Some d \<longrightarrow>
          guac_vnc_user_mouse_handler user x y button_mask client =
            Some (0, client\<lparr>data := (data client)\<lparr>display := Some
                   (d\<lparr>cursor := cursor d @ [Cursor_update (user_id user) x y button_mask]\<rparr>)\<rparr>\<rparr>))"
  using assms
  by (simp add: key_handler_connecting clipboard_handler_connecting mouse_handler_connecting)

theorem input_while_connecting_witness:
  "rfb_client (data connecting_client_with_display) = None
   \<and> guac_vnc_user_key_handler guest_user 65 1 connecting_client_with_display
       = (0, connecting_client_with_display)
   \<and> guac_vnc_clipboard_handler (\<lambda>w t. t) guest_user [104, 105] connecting_client_with_display
       = Some (0, connecting_client_with_display)
   \<and> guac_vnc_user_mouse_handler guest_user 10 20 1 connecting_client_with_display
       = Some (0, connecting_client\<lparr>data := (data connecting_client)\<lparr>
                    display := Some \<lparr>default_surface = [],
                                     cursor = [Cursor_update 2 10 20 1]\<rparr>\<rparr>\<rparr>)"
proof -
  have h: "rfb_client (data connecting_client_with_display) = None"
    by (simp add: connecting_client_with_display_def connecting_client_def)
  have d: "display (data connecting_client_with_display)
             = Some \<lparr>default_surface = [], cursor = []\<rparr>"
    by (simp add: connecting_client_with_display_def)
  show ?thesis
    using input_while_connecting [OF h, of guest_user 65 1 "\<lambda>w t. t" "[104, 105]" 10 20 1] h d
    by (simp add: connecting_client_with_display_def guest_user_def)
qed

text \<open>
  A mouse event that arrives while the handle is null is not dropped without effect.
  With a display, the cursor of the display records it. Without a display, the state of
  a session before its client thread has connected, the handler dereferences the null
  display pointer.
\<close>

theorem mouse_while_connecting_counterexample:
  "rfb_client (data connecting_client_with_display) = None
   \<and> guac_vnc_user_mouse_handler guest_user 10 20 1 connecting_client_with_display
       \<noteq> Some (0, connecting_client_with_display)
   \<and> rfb_client (data connecting_client) = None
   \<and> guac_vnc_user_mouse_handler guest_user 10 20 1 connecting_client
       \<noteq> Some (0, connecting_client)"
  by (simp add: guac_vnc_user_mouse_handler_def connecting_client_with_display_def
      connecting_client_def guest_user_def)

subsection \<open>A guest joins\<close>

text \<open>
  Claim C9. For every user who is not the owner and whose arguments parse, the join
  handler returns 0 and leaves the session as it is. When the display pointer is null it
  makes no replay and only flushes the user's socket; when the display exists it replays
  the display on the user's socket and then flushes the socket. No path of the handler
  dereferences the display pointer without this test.
\<close>

theorem guest_join_replay:
  assumes "\<not> owner user" and "guac_vnc_parse_args argv = Some parsed"
  shows "fst (guac_vnc_user_join_handler guac_vnc_parse_args pthread_create user argv client) = 0
    \<and> snd (snd (guac_vnc_user_join_handler guac_vnc_parse_args pthread_create user argv client))
        = client
    \<and> (display (data client) = None \<longrightarrow>
         user_socket (fst (snd (guac_vnc_user_join_handler guac_vnc_parse_args pthread_create
                                  user argv client)))
           = user_socket user @ [Socket_flush])
    \<and> (\<forall>d. display (data client) = Some d \<longrightarrow>
         user_socket (fst (snd (guac_vnc_user_join_handler guac_vnc_parse_args pthread_create
                                  user argv client)))
           = user_socket user @ [Display_dup d, Socket_flush])"
  using assms by (simp add: guac_vnc_user_join_handler_def Let_def)

theorem guest_join_replay_witness:
  "\<not> owner guest_user
   \<and> user_socket (fst (snd (guac_vnc_user_join_handler parse_default 0
                             guest_user [] connecting_client)))
       = [Socket_flush]
   \<and> user_socket (fst (snd (guac_vnc_user_join_handler parse_default 0
                             guest_user [] (connected_client scenario_bytes))))
       = [Display_dup \<lparr>default_surface = [], cursor = [Cursor_set_pointer]\<rparr>, Socket_flush]"
proof -
  have h1: "\<not> owner guest_user" by (simp add: guest_user_def)
  have h2: "parse_default [] = Some default_settings" by (simp add: parse_default_def)
  have d1: "display (data connecting_client) = None" by (simp add: connecting_client_def)
  have s: "user_socket guest_user = []" by (simp add: guest_user_def)
  show ?thesis
    using guest_join_replay [where guac_vnc_parse_args = parse_default and argv = "[]"
            and pthread_create = 0 and client = connecting_client, OF h1 h2]
          guest_join_replay [where guac_vnc_parse_args = parse_default and argv = "[]"
            and pthread_create = 0 and client = "connected_client scenario_bytes", OF h1 h2]
          h1 d1 s connected_client_data(3) [of scenario_bytes]
    by simp
qed

subsection \<open>The clipboard encoding\<close>

text \<open>
  Claim C8. \<^verbatim>\<open>guac_vnc_set_clipboard_encoding\<close> returns 0 exactly when the reader and
  the writer it has set are those of ISO8859-1, which is the case exactly when the name
  is none of "UTF-8", "UTF-16" and "CP1252": for \<^verbatim>\<open>NULL\<close>, for "ISO8859-1", and for
  every other name, where it also logs one warning. For "UTF-8", "UTF-16" and "CP1252"
  it returns 1 and sets the reader and the writer of that encoding. Nothing else changes.
\<close>

theorem set_clipboard_encoding_result:
  "(fst (guac_vnc_set_clipboard_encoding client name) = 0 \<longleftrightarrow>
      clipboard_reader (data (snd (guac_vnc_set_clipboard_encoding client name)))
        = Some GUAC_READ_ISO8859_1
      \<and> clipboard_writer (data (snd (guac_vnc_set_clipboard_encoding client name)))
        = Some GUAC_WRITE_ISO8859_1)
   \<and> (fst (guac_vnc_set_clipboard_encoding client name) = 0 \<longleftrightarrow>
        name \<notin> {Some ''UTF-8'', Some ''UTF-16'', Some ''CP1252''})
   \<and> (name = Some ''UTF-8'' \<longrightarrow>
        guac_vnc_set_clipboard_encoding client name =
          (1, client\<lparr>data := (data client)\<lparr>clipboard_reader := Some GUAC_READ_UTF8,
                                              clipboard_writer := Some GUAC_WRITE_UTF8\<rparr>\<rparr>))
   \<and> (name = Some ''UTF-16'' \<longrightarrow>
        guac_vnc_set_clipboard_encoding client name =
          (1, client\<lparr>data := (data client)\<lparr>clipboard_reader := Some GUAC_READ_UTF16,
                                              clipboard_writer := Some GUAC_WRITE_UTF16\<rparr>\<rparr>))
   \<and> (name = Some ''CP1252'' \<longrightarrow>
        guac_vnc_set_clipboard_encoding client name =
          (1, client\<lparr>data := (data client)\<lparr>clipboard_reader := Some GUAC_READ_CP1252,
                                              clipboard_writer := Some GUAC_WRITE_CP1252\<rparr>\<rparr>))
   \<and> (name = None \<or> name = Some ''ISO8859-1'' \<longrightarrow>
        guac_vnc_set_clipboard_encoding client name =
          (0, client\<lparr>data := (data client)\<lparr>clipboard_reader := Some GUAC_READ_ISO8859_1,
                                              clipboard_writer := Some GUAC_WRITE_ISO8859_1\<rparr>\<rparr>))
   \<and> (\<forall>n. name = Some n \<and> n \<notin> {''ISO8859-1'', ''UTF-8'', ''UTF-16'', ''CP1252''} \<longrightarrow>
        guac_vnc_set_clipboard_encoding client name =
          (0, client\<lparr>log_messages := log_messages client @
                        [(GUAC_LOG_WARNING,
                          ''Encoding '%s' is invalid. Defaulting to ISO8859-1.'', [n])],
                      data := (data client)\<lparr>clipboard_reader := Some GUAC_READ_ISO8859_1,
                                              clipboard_writer := Some GUAC_WRITE_ISO8859_1\<rparr>\<rparr>))"
  by (simp add: guac_vnc_set_clipboard_encoding_def Let_def)

theorem set_clipboard_encoding_result_witness:
  "fst (guac_vnc_set_clipboard_encoding connecting_client (Some ''UTF-8'')) \<noteq> 0
   \<and> clipboard_reader (data (snd (guac_vnc_set_clipboard_encoding connecting_client
                                    (Some ''UTF-8'')))) = Some GUAC_READ_UTF8
   \<and> fst (guac_vnc_set_clipboard_encoding connecting_client (Some ''latin1'')) = 0
   \<and> clipboard_writer (data (snd (guac_vnc_set_clipboard_encoding connecting_client
                                    (Some ''latin1'')))) = Some GUAC_WRITE_ISO8859_1
   \<and> log_messages (snd (guac_vnc_set_clipboard_encoding connecting_client (Some ''latin1'')))
       = [(GUAC_LOG_WARNING, ''Encoding '%s' is invalid. Defaulting to ISO8859-1.'',
           [''latin1''])]"
proof -
  have l: "log_messages connecting_client = []" by (simp add: connecting_client_def)
  show ?thesis
    using set_clipboard_encoding_result [of connecting_client "Some ''UTF-8''"]
          set_clipboard_encoding_result [of connecting_client "Some ''latin1''"] l
    by simp
qed

subsection \<open>The callbacks of a read-only session\<close>

lemma set_pixel_format_callbacks:
  "GotXCutText (guac_vnc_set_pixel_format c n) = GotXCutText c"
  "GotCursorShape (guac_vnc_set_pixel_format c n) = GotCursorShape c"
  by (simp_all add: guac_vnc_set_pixel_format_def Let_def)

lemma get_client_setup_GotXCutText:
  "GotXCutText (fst (guac_vnc_get_client_setup fresh client)) =
     (if read_only (settings (data client)) then GotXCutText fresh
      else Some Proc_guac_vnc_cut_text)"
  by (simp add: guac_vnc_get_client_setup_def Let_def set_pixel_format_callbacks
      split: option.split)

lemma get_client_setup_GotCursorShape:
  "GotCursorShape (fst (guac_vnc_get_client_setup fresh client)) =
     (if read_only (settings (data client)) \<or> remote_cursor (settings (data client))
      then GotCursorShape fresh
      else Some Proc_guac_vnc_cursor)"
  by (simp add: guac_vnc_get_client_setup_def Let_def set_pixel_format_callbacks
      split: option.split)

lemma get_client_uses_setup:
  "fst (guac_vnc_get_client fresh rfbInitClient client) =
     rfbInitClient (fst (guac_vnc_get_client_setup fresh client))"
  by (simp add: guac_vnc_get_client_def split: prod.split)

text \<open>
  Claim C10. In the client that \<^verbatim>\<open>guac_vnc_get_client\<close> configures and hands to
  \<^verbatim>\<open>rfbInitClient\<close>, the slots \<^verbatim>\<open>GotXCutText\<close> and \<^verbatim>\<open>GotCursorShape\<close> are as the library
  created them when the settings are read-only: neither callback is installed, and a new
  client without them stays without them. When the settings are not read-only,
  \<^verbatim>\<open>GotXCutText\<close> is \<^verbatim>\<open>guac_vnc_cut_text\<close>; \<^verbatim>\<open>GotCursorShape\<close> is \<^verbatim>\<open>guac_vnc_cursor\<close> when
  the remote cursor is off, and is left as the library created it when the remote cursor
  is on.
\<close>

theorem read_only_callbacks:
  "fst (guac_vnc_get_client fresh rfbInitClient client) =
     rfbInitClient (fst (guac_vnc_get_client_setup fresh client))
   \<and> (read_only (settings (data client)) \<longrightarrow>
        GotXCutText (fst (guac_vnc_get_client_setup fresh client)) = GotXCutText fresh
        \<and> GotCursorShape (fst (guac_vnc_get_client_setup fresh client)) = GotCursorShape fresh)
   \<and> (\<not> read_only (settings (data client)) \<longrightarrow>
        GotXCutText (fst (guac_vnc_get_client_setup fresh client)) = Some Proc_guac_vnc_cut_text)
   \<and> (\<not> read_only (settings (data client)) \<and> remote_cursor (settings (data client)) \<longrightarrow>
        GotCursorShape (fst (guac_vnc_get_client_setup fresh client)) = GotCursorShape fresh)
   \<and> (\<not> read_only (settings (data client)) \<and> \<not> remote_cursor (settings (data client)) \<longrightarrow>
        GotCursorShape (fst (guac_vnc_get_client_setup fresh client)) = Some Proc_guac_vnc_cursor)"
  by (simp add: get_client_uses_setup get_client_setup_GotXCutText
      get_client_setup_GotCursorShape)

theorem read_only_callbacks_witness:
  "read_only (settings (data read_only_client))
   \<and> GotXCutText (fst (guac_vnc_get_client_setup blank_rfb_client read_only_client)) = None
   \<and> GotCursorShape (fst (guac_vnc_get_client_setup blank_rfb_client read_only_client)) = None
   \<and> \<not> read_only (settings (data connecting_client))
   \<and> \<not> remote_cursor (settings (data connecting_client))
   \<and> GotXCutText (fst (guac_vnc_get_client_setup blank_rfb_client connecting_client))
       = Some Proc_guac_vnc_cut_text
   \<and> GotCursorShape (fst (guac_vnc_get_client_setup blank_rfb_client connecting_client))
       = Some Proc_guac_vnc_cursor"
proof -
  have ro: "read_only (settings (data read_only_client))"
    by (simp add: read_only_client_def default_settings_def)
  have rw: "\<not> read_only (settings (data connecting_client))"
    "\<not> remote_cursor (settings (data connecting_client))"
    by (simp_all add: connecting_client_def default_settings_def)
  have blank: "GotXCutText blank_rfb_client = None" "GotCursorShape blank_rfb_client = None"
    by (simp_all add: blank_rfb_client_def)
  show ?thesis
    using read_only_callbacks [of blank_rfb_client Some read_only_client]
          read_only_callbacks [of blank_rfb_client Some connecting_client]
          ro rw blank
    by simp
qed

subsection \<open>The stretched wait of a lagging frame\<close>

lemma c_int_in_range:
  assumes "- (2 ^ 31) \<le> n" and "n < 2 ^ 31"
  shows "c_int n = Some n"
  using assms by (simp add: c_int_def)

lemma frame_iteration_stretched:
  assumes "required_wait = processing_lag - int_of_timestamp (frame_end - last_frame_end)"
    and "- (2 ^ 31) \<le> required_wait" and "required_wait < 2 ^ 31"
    and "- (2 ^ 31) \<le> required_wait * 1000" and "required_wait * 1000 < 2 ^ 31"
    and "GUAC_VNC_FRAME_TIMEOUT k < required_wait"
  shows "frame_iteration k True frame_start last_frame_end processing_lag frame_end =
           Some (Wait_for_messages (required_wait * 1000))"
proof -
  have w: "c_int (processing_lag - int_of_timestamp (frame_end - last_frame_end))
             = Some required_wait"
    using assms(1, 2, 3) by (simp add: c_int_in_range)
  have t: "c_int (required_wait * 1000) = Some (required_wait * 1000)"
    using assms(4, 5) by (rule c_int_in_range)
  show ?thesis
    unfolding frame_iteration_def Let_def
    using assms(6) by (simp add: w t)
qed

lemma int_of_timestamp_small:
  assumes "- (2 ^ 31) \<le> t" and "t < 2 ^ 31"
  shows "int_of_timestamp t = t"
  unfolding int_of_timestamp_def
  using assms by (simp add: signed_take_bit_int_eq_self)

text \<open>
  Claim C7. In an iteration of the inner loop in which \<^verbatim>\<open>HandleRFBServerMessage\<close> has
  succeeded, let \<open>required_wait = processing_lag - (frame_end - last_frame_end)\<close>, the
  difference of the timestamps taken as an \<^verbatim>\<open>int\<close>, and let the \<^verbatim>\<open>int\<close> arithmetic not
  overflow. If \<open>required_wait > FRAME_TIMEOUT\<close>, the loop waits for more data with a
  timeout of \<open>required_wait * 1000\<close> microseconds, that is \<open>required_wait\<close> milliseconds,
  which is not the timeout \<open>FRAME_TIMEOUT * 1000\<close> of the default wait; unless the
  library already holds buffered data, this is the timeout \<^verbatim>\<open>WaitForMessage\<close> is called
  with. With a processing lag of 500 ms and 100 ms elapsed since the last frame, and a
  frame timeout below 400 ms, the timeout is 400000 microseconds.
\<close>

theorem stretched_wait:
  assumes "required_wait = processing_lag - int_of_timestamp (frame_end - last_frame_end)"
    and "- (2 ^ 31) \<le> required_wait" and "required_wait < 2 ^ 31"
    and "- (2 ^ 31) \<le> required_wait * 1000" and "required_wait * 1000 < 2 ^ 31"
    and "GUAC_VNC_FRAME_TIMEOUT k < required_wait"
  shows "frame_iteration k True frame_start last_frame_end processing_lag frame_end =
           Some (Wait_for_messages (required_wait * 1000))
    \<and> required_wait * 1000 \<noteq> GUAC_VNC_FRAME_TIMEOUT k * 1000
    \<and> (buffered rfbc = 0 \<longrightarrow>
         guac_vnc_wait_for_messages WaitForMessage rfbc (required_wait * 1000)
           = WaitForMessage (required_wait * 1000))
    \<and> (processing_lag = 500 \<and> frame_end - last_frame_end = 100 \<longrightarrow>
         frame_iteration k True frame_start last_frame_end processing_lag frame_end =
           Some (Wait_for_messages 400000))"
proof (intro conjI impI)
  show it: "frame_iteration k True frame_start last_frame_end processing_lag frame_end =
           Some (Wait_for_messages (required_wait * 1000))"
    using assms by (rule frame_iteration_stretched)
  show "required_wait * 1000 \<noteq> GUAC_VNC_FRAME_TIMEOUT k * 1000"
    using assms(6) by simp
  show "guac_vnc_wait_for_messages WaitForMessage rfbc (required_wait * 1000)
           = WaitForMessage (required_wait * 1000)" if "buffered rfbc = 0"
    using that by (simp add: guac_vnc_wait_for_messages_def)
  show "frame_iteration k True frame_start last_frame_end processing_lag frame_end =
           Some (Wait_for_messages 400000)"
    if "processing_lag = 500 \<and> frame_end - last_frame_end = 100"
  proof -
    from that have "int_of_timestamp (frame_end - last_frame_end) = 100"
      by (simp add: int_of_timestamp_small)
    with that assms(1) have "required_wait = 400" by simp
    with it show ?thesis by simp
  qed
qed

theorem stretched_wait_witness:
  "GUAC_VNC_FRAME_TIMEOUT example_constants < 400
   \<and> frame_iteration example_constants True 1100 1000 500 1100
       = Some (Wait_for_messages 400000)
   \<and> guac_vnc_wait_for_messages (\<lambda>timeout. 0) (connected_rfb_client scenario_bytes) 400000 = 0"
proof -
  have h1: "(400 :: int) = 500 - int_of_timestamp (1100 - 1000)"
    by (simp add: int_of_timestamp_small)
  have h6: "GUAC_VNC_FRAME_TIMEOUT example_constants < 400"
    by (simp add: example_constants_def)
  have b: "buffered (connected_rfb_client scenario_bytes) = 0"
    by (simp add: connected_rfb_client_def guac_vnc_get_client_setup_def
        guac_vnc_set_pixel_format_def blank_rfb_client_def Let_def split: option.split)
  show ?thesis
    using stretched_wait [OF h1 _ _ _ _ h6, of 1100 "connected_rfb_client scenario_bytes"
                            "\<lambda>timeout. 0"] h6 b
    by simp
qed

end
